theory Spec2Isabelle
  imports Complex_Main "HOL-Library.AList" "HOL-Library.List_Lexorder" "HOL-Library.Char_ord"
begin

section \<open>Python values\<close>

text \<open>
  The records of the automation suite are what \<^verbatim>\<open>json.load\<close> returns: nested
  dictionaries, lists, strings, numbers, booleans and \<^verbatim>\<open>None\<close>.  A dictionary keeps
  its insertion order, so it is an association list; \<^verbatim>\<open>d.get(k)\<close> is \<open>map_of\<close>,
  \<^verbatim>\<open>d[k] = v\<close> is \<open>AList.update\<close> (the entry keeps its place, a new key goes to the
  end) and \<^verbatim>\<open>d.pop(k, None)\<close> is \<open>AList.delete\<close>.  A Python float is the real number
  it denotes (infinities and NaN are not represented).
\<close>

datatype json =
    JNull
  | JBool bool
  | JInt int
  | JFloat real
  | JStr string
  | JList "json list"
  | JDict "(string \<times> json) list"

type_synonym pydict = "(string \<times> json) list"

text \<open>The exceptions the modelled code can meet.\<close>

datatype error = TypeError | AttributeError | KeyError | ValueError | OSError | EngineError

text \<open>Truth value testing (\<^verbatim>\<open>if x:\<close>, \<^verbatim>\<open>not x\<close>).\<close>

fun truthy :: "json \<Rightarrow> bool" where
  "truthy JNull = False"
| "truthy (JBool b) = b"
| "truthy (JInt n) = (n \<noteq> 0)"
| "truthy (JFloat x) = (x \<noteq> 0)"
| "truthy (JStr s) = (s \<noteq> [])"
| "truthy (JList l) = (l \<noteq> [])"
| "truthy (JDict d) = (d \<noteq> [])"

section \<open>Strings\<close>

text \<open>
  Texts are strings of code points below 256.  On these, \<^verbatim>\<open>str.lower\<close> maps
  \<^verbatim>\<open>A-Z\<close> and the upper-case letters of Latin-1 to their lower-case forms, and the white
  space of \<^verbatim>\<open>str.isspace\<close>, \<^verbatim>\<open>str.strip\<close> and the pattern \<^verbatim>\<open>\s\<close> is the set below.
\<close>

definition py_lower_char :: "char \<Rightarrow> char" where
  "py_lower_char c =
     (let n = (of_char c :: nat)
      in if (65 \<le> n \<and> n \<le> 90) \<or> (192 \<le> n \<and> n \<le> 214) \<or> (216 \<le> n \<and> n \<le> 222)
         then char_of (n + 32) else c)"

definition py_lower :: "string \<Rightarrow> string" where
  "py_lower s = map py_lower_char s"

definition py_isspace :: "char \<Rightarrow> bool" where
  "py_isspace c =
     (let n = (of_char c :: nat)
      in (9 \<le> n \<and> n \<le> 13) \<or> (28 \<le> n \<and> n \<le> 32) \<or> n = 133 \<or> n = 160)"

definition py_strip :: "string \<Rightarrow> string" where
  "py_strip s = rev (dropWhile py_isspace (rev (dropWhile py_isspace s)))"

definition is_digit :: "char \<Rightarrow> bool" where
  "is_digit c = (let n = (of_char c :: nat) in 48 \<le> n \<and> n \<le> 57)"

text \<open>\<^verbatim>\<open>s.replace(c, new)\<close> for a one-character \<^verbatim>\<open>c\<close>: every occurrence is replaced.\<close>

definition str_replace :: "char \<Rightarrow> string \<Rightarrow> string \<Rightarrow> string" where
  "str_replace c new s = concat (map (\<lambda>x. if x = c then new else [x]) s)"

section \<open>Regular expressions\<close>

text \<open>
  The patterns of \<^verbatim>\<open>extract_field_from_text\<close> are sequences of literal characters and
  of character classes under \<^verbatim>\<open>*\<close>, \<^verbatim>\<open>+\<close> or \<^verbatim>\<open>?\<close>, around one capturing group.  A class
  is the list of its members; \<^verbatim>\<open>[0-9,]\<close> is \<open>[Digit, Ch CHR '',''\<close>\<open>]\<close>.
\<close>

datatype cset = Ch char | Space | Digit

datatype item =
    One "cset list"
  | Star "cset list"
  | Plus "cset list"
  | Opt "cset list"
  | GroupOpen
  | GroupClose

type_synonym pattern = "item list"

fun cset_has :: "cset \<Rightarrow> char \<Rightarrow> bool" where
  "cset_has (Ch a) c = (c = a)"
| "cset_has Space c = py_isspace c"
| "cset_has Digit c = is_digit c"

definition in_class :: "cset list \<Rightarrow> char \<Rightarrow> bool" where
  "in_class cs c = list_ex (\<lambda>a. cset_has a c) cs"

text \<open>
  \<open>rmatch p s g acc\<close> matches the pattern \<open>p\<close> at the start of \<open>s\<close> the way the
  backtracking matcher of \<^verbatim>\<open>re\<close> does: a greedy repetition takes as many characters as
  it can and gives them back one at a time when the rest of the pattern fails.  \<open>g\<close>
  says whether the group is open and \<open>acc\<close> holds its characters, newest first; the
  result is the text of group 1.
\<close>

fun rmatch :: "pattern \<Rightarrow> string \<Rightarrow> bool \<Rightarrow> string \<Rightarrow> string option" where
  "rmatch [] s g acc = Some (rev acc)"
| "rmatch (GroupOpen # r) s g acc = rmatch r s True acc"
| "rmatch (GroupClose # r) s g acc = rmatch r s False acc"
| "rmatch (One cs # r) [] g acc = None"
| "rmatch (One cs # r) (x # xs) g acc =
     (if in_class cs x then rmatch r xs g (if g then x # acc else acc) else None)"
| "rmatch (Star cs # r) [] g acc = rmatch r [] g acc"
| "rmatch (Star cs # r) (x # xs) g acc =
     (if in_class cs x
      then (case rmatch (Star cs # r) xs g (if g then x # acc else acc) of
              Some m \<Rightarrow> Some m
            | None \<Rightarrow> rmatch r (x # xs) g acc)
      else rmatch r (x # xs) g acc)"
| "rmatch (Plus cs # r) [] g acc = None"
| "rmatch (Plus cs # r) (x # xs) g acc =
     (if in_class cs x then rmatch (Star cs # r) xs g (if g then x # acc else acc)
      else None)"
| "rmatch (Opt cs # r) [] g acc = rmatch r [] g acc"
| "rmatch (Opt cs # r) (x # xs) g acc =
     (if in_class cs x
      then (case rmatch r xs g (if g then x # acc else acc) of
              Some m \<Rightarrow> Some m
            | None \<Rightarrow> rmatch r (x # xs) g acc)
      else rmatch r (x # xs) g acc)"

text \<open>\<^verbatim>\<open>re.search(pattern, s)\<close> followed by \<^verbatim>\<open>match.group(1)\<close>: the leftmost match.\<close>

fun re_search :: "pattern \<Rightarrow> string \<Rightarrow> string option" where
  "re_search p [] = rmatch p [] False []"
| "re_search p (x # xs) =
     (case rmatch p (x # xs) False [] of Some m \<Rightarrow> Some m | None \<Rightarrow> re_search p xs)"

definition lit :: "string \<Rightarrow> pattern" where
  "lit s = map (\<lambda>c. One [Ch c]) s"

section \<open>Floats read from and written to text\<close>

text \<open>
  \<^verbatim>\<open>float(s)\<close> is applied to what a group captured, commas removed: a string over the
  digits and the point.  Such a string is a float literal when it has at most one point
  and at least one digit; anything else raises \<^verbatim>\<open>ValueError\<close>.  A literal whose value
  is a whole number below \<open>10^15\<close> is read exactly, and \<^verbatim>\<open>str\<close> of such a float is its
  decimal digits followed by \<^verbatim>\<open>.0\<close>.  Every other literal is rounded to a double: its
  value and its shortest representation are left to \<open>float_parse\<close> and \<open>float_repr\<close>.
\<close>

record float_env =
  float_parse :: "string \<Rightarrow> real"
  float_repr :: "real \<Rightarrow> string"

definition float_literal :: "string \<Rightarrow> bool" where
  "float_literal s =
     (list_all (\<lambda>c. is_digit c \<or> c = CHR ''.'') s
      \<and> length (filter (\<lambda>c. c = CHR ''.'') s) \<le> 1
      \<and> list_ex is_digit s)"

definition digits_value :: "string \<Rightarrow> nat" where
  "digits_value ds = foldl (\<lambda>a c. 10 * a + (of_char c - 48)) 0 ds"

definition int_part :: "string \<Rightarrow> string" where
  "int_part s = takeWhile (\<lambda>c. c \<noteq> CHR ''.'') s"

definition frac_part :: "string \<Rightarrow> string" where
  "frac_part s = drop 1 (dropWhile (\<lambda>c. c \<noteq> CHR ''.'') s)"

definition py_float :: "float_env \<Rightarrow> string \<Rightarrow> error + real" where
  "py_float fe s =
     (if \<not> float_literal s then Inl ValueError
      else if list_all (\<lambda>c. c = CHR ''0'') (frac_part s) \<and> digits_value (int_part s) < 10 ^ 15
      then Inr (real (digits_value (int_part s)))
      else Inr (float_parse fe s))"

function show_nat :: "nat \<Rightarrow> string" where
  "show_nat n =
     (if n < 10 then [char_of (48 + n)] else show_nat (n div 10) @ [char_of (48 + n mod 10)])"
  by pat_completeness auto
termination
  by (relation "measure id") auto

declare show_nat.simps [simp del]

definition py_str_float :: "float_env \<Rightarrow> real \<Rightarrow> string" where
  "py_str_float fe x =
     (if 0 \<le> x \<and> x < 10 ^ 15 \<and> x = of_int \<lfloor>x\<rfloor> then show_nat (nat \<lfloor>x\<rfloor>) @ ''.0''
      else float_repr fe x)"

section \<open>OCRProcessor.extract_field_from_text\<close>

definition number_with_commas :: pattern where
  "number_with_commas =
     [GroupOpen, Plus [Digit, Ch CHR '',''], Opt [Ch CHR ''.''], Star [Digit], GroupClose]"

definition number :: pattern where
  "number = [GroupOpen, Plus [Digit], Opt [Ch CHR ''.''], Star [Digit], GroupClose]"

definition colon_space :: pattern where
  "colon_space = [Star [Ch CHR '':'', Space]]"

definition spaces :: pattern where
  "spaces = [Star [Space]]"

text \<open>The table \<^verbatim>\<open>patterns\<close>, in the order of the source.\<close>

definition patterns :: "(string \<times> pattern list) list" where
  "patterns =
     [(''conditioned_floor_area'',
        [lit ''floor'' @ spaces @ lit ''area'' @ colon_space @ number_with_commas,
         lit ''area'' @ colon_space @ number_with_commas @ spaces @ lit ''sq'' @ spaces @ lit ''ft'',
         number_with_commas @ spaces @ lit ''sq'' @ spaces @ lit ''ft'']),
      (''tonnage'',
        [number @ spaces @ lit ''ton'',
         lit ''tonnage'' @ colon_space @ number]),
      (''seer'',
        [lit ''seer'' @ colon_space @ number,
         number @ spaces @ lit ''seer'']),
      (''u_factor'',
        [lit ''u'' @ colon_space @ number,
         lit ''u-factor'' @ colon_space @ number]),
      (''shgc'',
        [lit ''shgc'' @ colon_space @ number,
         lit ''solar'' @ spaces @ lit ''heat'' @ spaces @ lit ''gain'' @ colon_space @ number])]"

text \<open>\<^verbatim>\<open>patterns.get(field_name.lower(), [])\<close>.\<close>

definition field_patterns :: "string \<Rightarrow> pattern list" where
  "field_patterns field_name =
     (case map_of patterns (py_lower field_name) of None \<Rightarrow> [] | Some ps \<Rightarrow> ps)"

text \<open>
  The loop over the patterns of the field: the first pattern that matches and whose group
  is a float literal gives the result; a group that is not one (\<^verbatim>\<open>ValueError\<close>) makes
  the loop go on with the next pattern.
\<close>

fun try_patterns :: "float_env \<Rightarrow> pattern list \<Rightarrow> string \<Rightarrow> string option" where
  "try_patterns fe [] text = None"
| "try_patterns fe (p # ps) text =
     (case re_search p (py_lower text) of
        None \<Rightarrow> try_patterns fe ps text
      | Some g \<Rightarrow>
          (case py_float fe (str_replace CHR '','' [] g) of
             Inl e \<Rightarrow> try_patterns fe ps text
           | Inr x \<Rightarrow> Some (py_str_float fe x)))"

definition extract_field_from_text :: "float_env \<Rightarrow> string \<Rightarrow> string \<Rightarrow> string option" where
  "extract_field_from_text fe text field_name = try_patterns fe (field_patterns field_name) text"

section \<open>Configuration and environment\<close>

text \<open>
  The options of \<^verbatim>\<open>ConfigManager\<close> that the modelled code reads.  The default
  threshold is the double that the literal \<^verbatim>\<open>0.6\<close> denotes.
\<close>

record config =
  ocr_confidence_threshold :: real
  duplicate_detection_enabled :: bool
  template_file :: string

definition default_config :: config where
  "default_config =
     \<lparr>ocr_confidence_threshold = 5404319552844595 / 9007199254740992,
      duplicate_detection_enabled = True,
      template_file = ''YourTemplate.egpj''\<rparr>"

text \<open>
  Everything the code asks of the operating system and of its libraries.  A call that can
  raise returns \<open>Inl\<close> of the exception.  Paths are Python values, as the code passes
  them on unchecked: \<^verbatim>\<open>os.path.exists\<close> looks a string up and raises \<^verbatim>\<open>TypeError\<close>
  on a float, a list or a dictionary.
  \<^item> \<open>cv2_imread\<close>: \<open>Inr False\<close> when \<^verbatim>\<open>cv2.imread\<close> returns \<^verbatim>\<open>None\<close>;
  \<^item> \<open>cv2_binarize\<close>: \<^verbatim>\<open>cvtColor\<close>, \<^verbatim>\<open>threshold\<close> and \<^verbatim>\<open>imwrite\<close> to the second path;
  \<^item> \<open>image_to_data\<close>: the list \<^verbatim>\<open>data['conf']\<close>, each entry as \<^verbatim>\<open>int(conf)\<close> reads it
    (\<open>Inl\<close> for the call or the lookup failing, and inside for an entry \<^verbatim>\<open>int\<close> rejects);
  \<^item> \<open>readtext\<close>: the detected regions of EasyOCR, as text and confidence;
  \<^item> \<open>float_div\<close>: the quotient \<^verbatim>\<open>a / b\<close> as Python computes it, the double nearest to
    the exact quotient (of two integers as well as of two floats); \<open>float_sum\<close>:
    \<^verbatim>\<open>sum\<close> of a list of floats;
  \<^item> \<open>file_md5\<close>: the digest of a file's bytes;
  \<^item> \<open>md5_hexdigest\<close> and \<open>json_dumps\<close>: \<^verbatim>\<open>hashlib.md5(s.encode()).hexdigest()\<close> and
    \<^verbatim>\<open>json.dumps(d, sort_keys=True)\<close>;
  \<^item> \<open>write_hash_file\<close>: writing \<^verbatim>\<open>archive/processed_hashes.json\<close>;
  \<^item> \<open>read_json\<close>: \<^verbatim>\<open>open\<close> and \<^verbatim>\<open>json.load\<close> of an input file;
  \<^item> \<open>com_dispatch\<close>: \<^verbatim>\<open>win32com.client.Dispatch\<close>, \<open>Inr False\<close> for a false object;
  \<^item> \<open>path_join\<close>: the operator \<^verbatim>\<open>/\<close> of \<^verbatim>\<open>pathlib\<close>; \<open>mkdir\<close>: \<^verbatim>\<open>Path.mkdir(exist_ok=True)\<close>;
  \<^item> \<open>inputs_dir\<close>, \<open>outputs_dir\<close>, \<open>templates_dir\<close>: the directories under the project
    root; \<open>os_listdir\<close>: \<^verbatim>\<open>os.listdir\<close>; \<open>os_path_join\<close>: \<^verbatim>\<open>os.path.join\<close>;
    \<open>glob_json\<close>: \<^verbatim>\<open>Path.glob("*.json")\<close>;
    \<open>path_stem\<close>: \<^verbatim>\<open>Path.stem\<close>; \<open>write_report\<close>: writing the report of a parallel run;
  \<^item> \<open>gui\<close>: \<open>None\<close> in batch mode; with a window, \<open>Some f\<close>, where \<open>f i\<close> is the flag
    \<^verbatim>\<open>gui.processing\<close> as the batch loop reads it before its \<open>i\<close>-th file (the user
    clears it from another thread).
\<close>

record env =
  os_path_exists :: "json \<Rightarrow> error + bool"
  os_remove :: "json \<Rightarrow> error + unit"
  tesseract_available :: bool
  easyocr_available :: bool
  easyocr_reader :: bool
  opencv_available :: bool
  cv2_imread :: "json \<Rightarrow> error + bool"
  cv2_binarize :: "json \<Rightarrow> json \<Rightarrow> error + unit"
  image_to_data :: "json \<Rightarrow> error + (error + int) list"
  image_to_string :: "json \<Rightarrow> error + string"
  readtext :: "json \<Rightarrow> error + (string \<times> real) list"
  float_div :: "real \<Rightarrow> real \<Rightarrow> real"
  float_sum :: "real list \<Rightarrow> real"
  file_md5 :: "json \<Rightarrow> error + string"
  md5_hexdigest :: "string \<Rightarrow> string"
  json_dumps :: "pydict \<Rightarrow> string"
  write_hash_file :: "string set \<Rightarrow> error + unit"
  read_json :: "json \<Rightarrow> error + json"
  com_dispatch :: "error + bool"
  path_join :: "string \<Rightarrow> json \<Rightarrow> error + string"
  mkdir :: "string \<Rightarrow> error + unit"
  inputs_dir :: string
  outputs_dir :: string
  templates_dir :: string
  os_listdir :: "string \<Rightarrow> error + string list"
  os_path_join :: "string \<Rightarrow> string \<Rightarrow> string"
  glob_json :: "string \<Rightarrow> string list"
  path_stem :: "string \<Rightarrow> string"
  write_report :: "error + unit"
  gui :: "(nat \<Rightarrow> bool) option"

text \<open>\<^verbatim>\<open>try: body except Exception as e: handler\<close>.\<close>

definition try_except :: "error + 'a \<Rightarrow> (error \<Rightarrow> error + 'a) \<Rightarrow> error + 'a" where
  "try_except body handler = (case body of Inl e \<Rightarrow> handler e | Inr r \<Rightarrow> Inr r)"

section \<open>OCRProcessor: the two engine adapters\<close>

definition preprocess_image :: "env \<Rightarrow> json \<Rightarrow> json" where
  "preprocess_image ev image_path =
     (if \<not> opencv_available ev then image_path
      else case cv2_imread ev image_path of
             Inl e \<Rightarrow> image_path
           | Inr False \<Rightarrow> image_path
           | Inr True \<Rightarrow>
               (case image_path of
                  JStr p \<Rightarrow>
                    (let processed_path = JStr (str_replace CHR ''.'' ''_processed.'' p)
                     in case cv2_binarize ev image_path processed_path of
                          Inl e \<Rightarrow> image_path
                        | Inr u \<Rightarrow> processed_path)
                | _ \<Rightarrow> image_path))"

text \<open>\<^verbatim>\<open>[int(conf) for conf in data['conf'] if int(conf) > 0]\<close>.\<close>

fun positive_confs :: "(error + int) list \<Rightarrow> error + int list" where
  "positive_confs [] = Inr []"
| "positive_confs (Inl e # cs) = Inl e"
| "positive_confs (Inr n # cs) =
     (case positive_confs cs of
        Inl e \<Rightarrow> Inl e
      | Inr ns \<Rightarrow> Inr (if n > 0 then n # ns else ns))"

text \<open>
  The body of the \<^verbatim>\<open>try\<close> of \<^verbatim>\<open>extract_with_tesseract\<close>.  The sum of the integer
  confidences is exact; the mean and the division by \<^verbatim>\<open>100.0\<close> are rounded to doubles.
\<close>

definition tesseract_try :: "env \<Rightarrow> json \<Rightarrow> error + (string \<times> real)" where
  "tesseract_try ev image_path =
     (let processed_path = preprocess_image ev image_path
      in case image_to_data ev processed_path of
           Inl e \<Rightarrow> Inl e
         | Inr conf \<Rightarrow>
         (case positive_confs conf of
           Inl e \<Rightarrow> Inl e
         | Inr confidences \<Rightarrow>
         (let avg_confidence =
                (if confidences \<noteq> []
                 then float_div ev (real_of_int (sum_list confidences))
                        (real (length confidences))
                 else 0)
          in case image_to_string ev processed_path of
           Inl e \<Rightarrow> Inl e
         | Inr text \<Rightarrow>
         (case (if processed_path \<noteq> image_path
                then (case os_path_exists ev processed_path of
                        Inl e \<Rightarrow> Inl e
                      | Inr True \<Rightarrow> os_remove ev processed_path
                      | Inr False \<Rightarrow> Inr ())
                else Inr ()) of
           Inl e \<Rightarrow> Inl e
         | Inr u \<Rightarrow> Inr (py_strip text, float_div ev avg_confidence 100)))))"

definition extract_with_tesseract :: "env \<Rightarrow> json \<Rightarrow> error + (string \<times> real)" where
  "extract_with_tesseract ev image_path =
     (if \<not> tesseract_available ev then Inr ('''', 0)
      else try_except (tesseract_try ev image_path) (\<lambda>e. Inr ('''', 0)))"

text \<open>\<^verbatim>\<open>' '.join(all_text)\<close>.\<close>

fun join_space :: "string list \<Rightarrow> string" where
  "join_space [] = []"
| "join_space [t] = t"
| "join_space (t # ts) = t @ '' '' @ join_space ts"

definition easyocr_try :: "env \<Rightarrow> json \<Rightarrow> error + (string \<times> real)" where
  "easyocr_try ev image_path =
     (case readtext ev image_path of
        Inl e \<Rightarrow> Inl e
      | Inr results \<Rightarrow>
          if results = [] then Inr ('''', 0)
          else (let all_text = map fst results;
                    confidences = map snd results;
                    combined_text = join_space all_text;
                    avg_confidence =
                      (if confidences \<noteq> []
                       then float_div ev (float_sum ev confidences) (real (length confidences))
                       else 0)
                in Inr (py_strip combined_text, avg_confidence)))"

definition extract_with_easyocr :: "env \<Rightarrow> json \<Rightarrow> error + (string \<times> real)" where
  "extract_with_easyocr ev image_path =
     (if \<not> easyocr_available ev \<or> \<not> easyocr_reader ev then Inr ('''', 0)
      else try_except (easyocr_try ev image_path) (\<lambda>e. Inr ('''', 0)))"

section \<open>OCRProcessor.extract_text\<close>

record ocr_result =
  result_text :: string
  result_confidence :: real
  result_method :: string
  result_success :: bool

text \<open>
  The result of \<^verbatim>\<open>extract_text\<close>, with the adapters it called, in the order of the
  calls.
\<close>

definition extract_text :: "config \<Rightarrow> env \<Rightarrow> json \<Rightarrow> (error + ocr_result) \<times> string list" where
  "extract_text cfg ev image_path =
     (case os_path_exists ev image_path of
        Inl e \<Rightarrow> (Inl e, [])
      | Inr False \<Rightarrow>
          (Inr \<lparr>result_text = '''', result_confidence = 0, result_method = ''none'', result_success = False\<rparr>, [])
      | Inr True \<Rightarrow>
     (let confidence_threshold = ocr_confidence_threshold cfg
      in case extract_with_tesseract ev image_path of
        Inl e \<Rightarrow> (Inl e, [''tesseract''])
      | Inr (tesseract_text, tesseract_conf) \<Rightarrow>
          if tesseract_conf \<ge> confidence_threshold \<and> tesseract_text \<noteq> []
          then (Inr \<lparr>result_text = tesseract_text, result_confidence = tesseract_conf,
                      result_method = ''tesseract'', result_success = True\<rparr>, [''tesseract''])
          else
     (case extract_with_easyocr ev image_path of
        Inl e \<Rightarrow> (Inl e, [''tesseract'', ''easyocr''])
      | Inr (easyocr_text, easyocr_conf) \<Rightarrow>
          if easyocr_conf \<ge> confidence_threshold \<and> easyocr_text \<noteq> []
          then (Inr \<lparr>result_text = easyocr_text, result_confidence = easyocr_conf,
                      result_method = ''easyocr'', result_success = True\<rparr>, [''tesseract'', ''easyocr''])
          else if tesseract_conf \<ge> easyocr_conf
          then (Inr \<lparr>result_text = tesseract_text, result_confidence = tesseract_conf,
                      result_method = ''tesseract'',
                      result_success = (tesseract_conf \<ge> confidence_threshold)\<rparr>,
                [''tesseract'', ''easyocr''])
          else (Inr \<lparr>result_text = easyocr_text, result_confidence = easyocr_conf,
                      result_method = ''easyocr'',
                      result_success = (easyocr_conf \<ge> confidence_threshold)\<rparr>,
                [''tesseract'', ''easyocr'']))))"

section \<open>DuplicateDetector\<close>

text \<open>
  The detector holds the set \<^verbatim>\<open>processed_hashes\<close>; \<open>hash_file\<close> is what the last
  successful \<^verbatim>\<open>save_processed_hashes\<close> wrote (what a failed write leaves on disk is
  not modelled).  Every method returns the detector it leaves behind.
\<close>

record detector =
  processed_hashes :: "string set"
  hash_file :: "string set option"

text \<open>\<^verbatim>\<open>d.get(k)\<close>: \<^verbatim>\<open>None\<close> for a missing key.\<close>

definition dict_get :: "pydict \<Rightarrow> string \<Rightarrow> json" where
  "dict_get d k = (case map_of d k of None \<Rightarrow> JNull | Some v \<Rightarrow> v)"

definition save_processed_hashes :: "env \<Rightarrow> detector \<Rightarrow> detector" where
  "save_processed_hashes ev d =
     (case write_hash_file ev (processed_hashes d) of
        Inl e \<Rightarrow> d
      | Inr u \<Rightarrow> d\<lparr>hash_file := Some (processed_hashes d)\<rparr>)"

definition calculate_hash :: "env \<Rightarrow> json \<Rightarrow> string" where
  "calculate_hash ev file_path = (case file_md5 ev file_path of Inl e \<Rightarrow> '''' | Inr h \<Rightarrow> h)"

text \<open>\<^verbatim>\<open>floor_plan_path and os.path.exists(floor_plan_path)\<close>.\<close>

definition path_given_and_exists :: "env \<Rightarrow> json \<Rightarrow> error + bool" where
  "path_given_and_exists ev floor_plan_path =
     (if truthy floor_plan_path then os_path_exists ev floor_plan_path else Inr False)"

text \<open>The digest of the record without its identifier and its image path.\<close>

definition content_hash :: "env \<Rightarrow> pydict \<Rightarrow> string" where
  "content_hash ev input_data =
     (let content_for_hash = AList.delete ''floor_plan_image'' (AList.delete ''lot_id'' input_data);
          content_json = json_dumps ev content_for_hash
      in md5_hexdigest ev content_json)"

definition is_duplicate ::
  "config \<Rightarrow> env \<Rightarrow> detector \<Rightarrow> pydict \<Rightarrow> (error + bool) \<times> detector" where
  "is_duplicate cfg ev d input_data =
     (if \<not> duplicate_detection_enabled cfg then (Inr False, d)
      else
        (let floor_plan_path = dict_get input_data ''floor_plan_image''
         in case path_given_and_exists ev floor_plan_path of
              Inl e \<Rightarrow> (Inl e, d)
            | Inr ex \<Rightarrow>
                if ex \<and> calculate_hash ev floor_plan_path \<in> processed_hashes d
                then (Inr True, d)
                else if content_hash ev input_data \<in> processed_hashes d then (Inr True, d)
                else (Inr False, d)))"

definition mark_as_processed :: "env \<Rightarrow> detector \<Rightarrow> pydict \<Rightarrow> (error + unit) \<times> detector" where
  "mark_as_processed ev d input_data =
     (let floor_plan_path = dict_get input_data ''floor_plan_image''
      in case path_given_and_exists ev floor_plan_path of
           Inl e \<Rightarrow> (Inl e, d)
         | Inr ex \<Rightarrow>
             (let file_hash = calculate_hash ev floor_plan_path;
                  d1 = (if ex \<and> file_hash \<noteq> []
                        then d\<lparr>processed_hashes := insert file_hash (processed_hashes d)\<rparr>
                        else d);
                  d2 = d1\<lparr>processed_hashes :=
                            insert (content_hash ev input_data) (processed_hashes d1)\<rparr>
              in (Inr (), save_processed_hashes ev d2)))"

section \<open>Operations on Python containers\<close>

text \<open>\<^verbatim>\<open>k in s\<close> for two strings: \<open>k\<close> occurs in \<open>s\<close>.\<close>

fun is_substring :: "string \<Rightarrow> string \<Rightarrow> bool" where
  "is_substring k [] = (k = [])"
| "is_substring k (x # xs) = (take (length k) (x # xs) = k \<or> is_substring k xs)"

text \<open>
  \<^verbatim>\<open>k in c\<close>, \<^verbatim>\<open>c[k]\<close> and \<^verbatim>\<open>c[k] = v\<close> for a string \<open>k\<close> and any value \<open>c\<close>: a
  dictionary is looked up by key, a list is searched for the string, a string for the
  substring; indexing a list or a string by a string, and any of the three on a number, a
  boolean or \<^verbatim>\<open>None\<close>, raise \<^verbatim>\<open>TypeError\<close>.
\<close>

fun py_contains :: "json \<Rightarrow> string \<Rightarrow> error + bool" where
  "py_contains (JDict d) k = Inr (map_of d k \<noteq> None)"
| "py_contains (JList l) k = Inr (List.member l (JStr k))"
| "py_contains (JStr s) k = Inr (is_substring k s)"
| "py_contains c k = Inl TypeError"

fun py_getitem :: "json \<Rightarrow> string \<Rightarrow> error + json" where
  "py_getitem (JDict d) k = (case map_of d k of None \<Rightarrow> Inl KeyError | Some v \<Rightarrow> Inr v)"
| "py_getitem c k = Inl TypeError"

fun py_setitem :: "json \<Rightarrow> string \<Rightarrow> json \<Rightarrow> error + json" where
  "py_setitem (JDict d) k v = Inr (JDict (AList.update k v d))"
| "py_setitem c k v = Inl TypeError"

section \<open>InputProcessor\<close>

definition load_json :: "env \<Rightarrow> json \<Rightarrow> pydict option" where
  "load_json ev file_path =
     (case read_json ev file_path of
        Inl e \<Rightarrow> None
      | Inr (JDict data) \<Rightarrow> if map_of data ''lot_id'' = None then None else Some data
      | Inr other \<Rightarrow> None)"

definition defaults :: pydict where
  "defaults =
     [(''project_info'', JDict []),
      (''building_data'',
         JDict [(''conditioned_floor_area'', JFloat 2000),
                (''windows'', JDict []),
                (''walls'', JDict []),
                (''infiltration'', JDict [(''ach50'', JFloat 7)])]),
      (''hvac'',
         JDict [(''system1'', JDict [(''tonnage'', JFloat 2.5), (''seer2'', JFloat 14)])]),
      (''duct'', JDict [(''location'', JStr ''Interior'')])]"

text \<open>The loop over \<^verbatim>\<open>defaults.items()\<close>.\<close>

fun fill_sections :: "pydict \<Rightarrow> pydict \<Rightarrow> string list \<Rightarrow> pydict \<times> string list" where
  "fill_sections [] data warnings = (data, warnings)"
| "fill_sections ((key, default_value) # ds) data warnings =
     (if map_of data key = None
      then fill_sections ds (AList.update key default_value data)
             (warnings @ [''Missing '' @ key @ '' section, using defaults''])
      else fill_sections ds data warnings)"

text \<open>The loop over \<^verbatim>\<open>required_project_fields\<close>.\<close>

fun fill_project_fields ::
  "string list \<Rightarrow> json \<Rightarrow> string list \<Rightarrow> error + (json \<times> string list)" where
  "fill_project_fields [] project_info warnings = Inr (project_info, warnings)"
| "fill_project_fields (field # fs) project_info warnings =
     (case py_contains project_info field of
        Inl e \<Rightarrow> Inl e
      | Inr True \<Rightarrow> fill_project_fields fs project_info warnings
      | Inr False \<Rightarrow>
          (case py_setitem project_info field (JStr (''Default_'' @ field)) of
             Inl e \<Rightarrow> Inl e
           | Inr project_info' \<Rightarrow>
               fill_project_fields fs project_info'
                 (warnings @ [''Missing project_info.'' @ field @ '', using default''])))"

text \<open>
  \<^verbatim>\<open>validate_and_fill_defaults\<close>.  The sections are objects inside \<^verbatim>\<open>data\<close>, so a
  write to one is a write to \<^verbatim>\<open>data\<close>.  An exception leaves the function before it
  returns; its caller drops the record then.
\<close>

definition validate_and_fill_defaults :: "pydict \<Rightarrow> error + (pydict \<times> string list)" where
  "validate_and_fill_defaults data0 =
     (case fill_sections defaults data0 [] of (data1, warnings1) \<Rightarrow>
      case fill_project_fields [''name'', ''address'', ''city'', ''state'', ''zip'']
             (dict_get data1 ''project_info'') warnings1 of
        Inl e \<Rightarrow> Inl e
      | Inr (project_info, warnings2) \<Rightarrow>
     (let data2 = AList.update ''project_info'' project_info data1;
          building_data = dict_get data2 ''building_data''
      in case py_contains building_data ''conditioned_floor_area'' of
        Inl e \<Rightarrow> Inl e
      | Inr True \<Rightarrow> Inr (data2, warnings2)
      | Inr False \<Rightarrow>
          (case py_setitem building_data ''conditioned_floor_area'' (JFloat 2000) of
             Inl e \<Rightarrow> Inl e
           | Inr building_data' \<Rightarrow>
               Inr (AList.update ''building_data'' building_data' data2,
                    warnings2 @ [''Missing conditioned_floor_area, using default 2000 sqft'']))))"

section \<open>EnergyGaugeAutomation.enhance_data_with_ocr\<close>

text \<open>\<^verbatim>\<open>k not in c or not c[k]\<close>.\<close>

definition missing_or_falsy :: "json \<Rightarrow> string \<Rightarrow> error + bool" where
  "missing_or_falsy c k =
     (case py_contains c k of
        Inl e \<Rightarrow> Inl e
      | Inr False \<Rightarrow> Inr True
      | Inr True \<Rightarrow> (case py_getitem c k of Inl e \<Rightarrow> Inl e | Inr v \<Rightarrow> Inr (\<not> truthy v)))"

text \<open>
  \<^verbatim>\<open>float(s)\<close> for a string \<open>s\<close> that \<^verbatim>\<open>str\<close> made from a float.  Such a string always
  reads back, also in the exponent form (\<^verbatim>\<open>1e-05\<close>, \<^verbatim>\<open>1e+16\<close>): the call never raises.
  A whole number below \<open>10^15\<close> is read exactly; the value of any other string is left
  to \<open>float_parse\<close>.
\<close>

definition float_of_repr :: "float_env \<Rightarrow> string \<Rightarrow> real" where
  "float_of_repr fe s = (case py_float fe s of Inl e \<Rightarrow> float_parse fe s | Inr x \<Rightarrow> x)"

text \<open>
  The block that both halves of \<^verbatim>\<open>enhance_data_with_ocr\<close> consist of: if the key is
  missing or falsy in the container, extract the field from the text and, if there is a
  value, store \<^verbatim>\<open>float(value)\<close>.  Whatever raises does so before the store, so an
  exception leaves the container as it was.
\<close>

definition fill_from_ocr :: "float_env \<Rightarrow> json \<Rightarrow> string \<Rightarrow> string \<Rightarrow> error + json" where
  "fill_from_ocr fe c k ocr_text =
     (case missing_or_falsy c k of
        Inl e \<Rightarrow> Inl e
      | Inr False \<Rightarrow> Inr c
      | Inr True \<Rightarrow>
          (case extract_field_from_text fe ocr_text k of
             None \<Rightarrow> Inr c
           | Some v \<Rightarrow>
               if v = [] then Inr c
               else py_setitem c k (JFloat (float_of_repr fe v))))"

text \<open>The loop over \<^verbatim>\<open>hvac_data.items()\<close>; an exception stops it where it is.\<close>

fun enhance_hvac ::
  "float_env \<Rightarrow> string \<Rightarrow> (string \<times> json) list \<Rightarrow> (error + unit) \<times> (string \<times> json) list" where
  "enhance_hvac fe ocr_text [] = (Inr (), [])"
| "enhance_hvac fe ocr_text ((system_id, system_data) # rest) =
     (case fill_from_ocr fe system_data ''tonnage'' ocr_text of
        Inl e \<Rightarrow> (Inl e, (system_id, system_data) # rest)
      | Inr system_data' \<Rightarrow>
          (case enhance_hvac fe ocr_text rest of
             (r, rest') \<Rightarrow> (r, (system_id, system_data') # rest')))"

text \<open>
  \<^verbatim>\<open>enhance_data_with_ocr\<close> changes the record in place: the result is the record as the
  call leaves it, also when it raises.  A section that is missing is read as a fresh
  empty dictionary, which the record never sees.
\<close>

definition enhance_data_with_ocr ::
  "float_env \<Rightarrow> pydict \<Rightarrow> string \<Rightarrow> (error + unit) \<times> pydict" where
  "enhance_data_with_ocr fe input_data ocr_text =
     (let building_data = (case map_of input_data ''building_data'' of
                             None \<Rightarrow> JDict [] | Some b \<Rightarrow> b)
      in case fill_from_ocr fe building_data ''conditioned_floor_area'' ocr_text of
           Inl e \<Rightarrow> (Inl e, input_data)
         | Inr building_data' \<Rightarrow>
     (let input_data1 = (if map_of input_data ''building_data'' = None then input_data
                         else AList.update ''building_data'' building_data' input_data)
      in case map_of input_data1 ''hvac'' of
           None \<Rightarrow> (Inr (), input_data1)
         | Some (JDict hvac_data) \<Rightarrow>
             (case enhance_hvac fe ocr_text hvac_data of
                (r, hvac_data') \<Rightarrow> (r, AList.update ''hvac'' (JDict hvac_data') input_data1))
         | Some other \<Rightarrow> (Inl AttributeError, input_data1)))"

section \<open>QualityIndicator\<close>

text \<open>
  The two indicators take the values \<^verbatim>\<open>"GREEN"\<close>, \<^verbatim>\<open>"YELLOW"\<close> and \<^verbatim>\<open>"RED"\<close>: the setters
  store \<^verbatim>\<open>status.upper()\<close>, and every caller passes one of these three literals.  A
  message is a formatted string, kept as the list of its parts; all the messages the code
  builds have a literal part, so none is empty.
\<close>

datatype level = GREEN | YELLOW | RED

datatype frag = Lit string | Val json | Num nat | Exc error

type_synonym message = "frag list"

record quality_indicator =
  data_quality :: level
  system_health :: level
  current_lot :: json
  status_message :: message
  processed_lots :: "(json \<times> string) list"

definition init_quality :: quality_indicator where
  "init_quality =
     \<lparr>data_quality = GREEN, system_health = GREEN, current_lot = JStr '''',
      status_message = [], processed_lots = []\<rparr>"

definition set_data_quality :: "quality_indicator \<Rightarrow> level \<Rightarrow> message \<Rightarrow> quality_indicator" where
  "set_data_quality q status msg =
     q\<lparr>data_quality := status,
       status_message := (if msg \<noteq> [] then msg else status_message q)\<rparr>"

definition set_system_health :: "quality_indicator \<Rightarrow> level \<Rightarrow> message \<Rightarrow> quality_indicator" where
  "set_system_health q status msg =
     q\<lparr>system_health := status,
       status_message := (if msg \<noteq> [] then msg else status_message q)\<rparr>"

definition set_current_lot :: "quality_indicator \<Rightarrow> json \<Rightarrow> quality_indicator" where
  "set_current_lot q lot_id = q\<lparr>current_lot := lot_id\<rparr>"

text \<open>The time stamp of an entry is left out.\<close>

definition add_processed_lot :: "quality_indicator \<Rightarrow> json \<Rightarrow> string \<Rightarrow> quality_indicator" where
  "add_processed_lot q lot_id status = q\<lparr>processed_lots := processed_lots q @ [(lot_id, status)]\<rparr>"

section \<open>EnergyGaugeCOMInterface\<close>

text \<open>
  The interface keeps whether it is connected and whether a project is loaded.  The
  operations on a project are the placeholders of the source: with a project loaded they
  log and return \<^verbatim>\<open>True\<close>; \<^verbatim>\<open>set_windows\<close> and \<^verbatim>\<open>set_hvac_system\<close> first walk
  \<^verbatim>\<open>data.items()\<close>, which fails on a value that is no dictionary.
\<close>

record com_interface =
  connected :: bool
  project :: bool

definition connect :: "env \<Rightarrow> com_interface \<Rightarrow> bool \<times> com_interface" where
  "connect ev com =
     (case com_dispatch ev of
        Inl e \<Rightarrow> (False, com)
      | Inr app \<Rightarrow> if app then (True, com\<lparr>connected := True\<rparr>) else (False, com))"

definition open_template :: "env \<Rightarrow> com_interface \<Rightarrow> string \<Rightarrow> bool \<times> com_interface" where
  "open_template ev com template_path =
     (if \<not> connected com then (False, com)
      else case os_path_exists ev (JStr template_path) of
             Inl e \<Rightarrow> (False, com)
           | Inr False \<Rightarrow> (False, com)
           | Inr True \<Rightarrow> (True, com\<lparr>project := True\<rparr>))"

definition set_project_info :: "com_interface \<Rightarrow> json \<Rightarrow> bool" where
  "set_project_info com project_info = project com"

definition set_building_data :: "com_interface \<Rightarrow> json \<Rightarrow> bool" where
  "set_building_data com building_data = project com"

definition has_items :: "json \<Rightarrow> bool" where
  "has_items v = (case v of JDict d \<Rightarrow> True | _ \<Rightarrow> False)"

definition set_windows :: "com_interface \<Rightarrow> json \<Rightarrow> bool" where
  "set_windows com windows_data = (project com \<and> has_items windows_data)"

definition set_hvac_system :: "com_interface \<Rightarrow> json \<Rightarrow> bool" where
  "set_hvac_system com hvac_data = (project com \<and> has_items hvac_data)"

definition calculate :: "com_interface \<Rightarrow> bool" where
  "calculate com = project com"

section \<open>EnergyGaugeAutomation: one lot\<close>

record state =
  quality :: quality_indicator
  duplicate_detector :: detector
  energygauge_com :: com_interface

text \<open>
  \<^verbatim>\<open>set_energygauge_data\<close>.  \<^verbatim>\<open>input_data['building_data'].get('windows', {})\<close> raises
  \<^verbatim>\<open>AttributeError\<close> when the section is no dictionary.
\<close>

definition set_energygauge_data :: "com_interface \<Rightarrow> pydict \<Rightarrow> error + bool" where
  "set_energygauge_data com input_data =
     (let success1 = (case map_of input_data ''project_info'' of
                        None \<Rightarrow> True | Some info \<Rightarrow> set_project_info com info)
      in case (case map_of input_data ''building_data'' of
                 None \<Rightarrow> Inr success1
               | Some (JDict bd) \<Rightarrow>
                   (let success2 = (success1 \<and> set_building_data com (JDict bd));
                        windows_data = (case map_of bd ''windows'' of
                                          None \<Rightarrow> JDict [] | Some w \<Rightarrow> w)
                    in Inr (if truthy windows_data \<and> \<not> set_windows com windows_data
                            then False else success2))
               | Some other \<Rightarrow> Inl AttributeError) of
           Inl e \<Rightarrow> Inl e
         | Inr success3 \<Rightarrow>
             Inr (case map_of input_data ''hvac'' of
                    None \<Rightarrow> success3
                  | Some hvac \<Rightarrow> if \<not> set_hvac_system com hvac then False else success3))"

text \<open>
  The steps of \<^verbatim>\<open>process_single_lot\<close> from the connection to the end of the \<^verbatim>\<open>try\<close>.
  Saving the project, exporting the report, archiving and the CSV log only write files
  and catch their own exceptions; they are left out.
\<close>

definition hand_off ::
  "config \<Rightarrow> env \<Rightarrow> state \<Rightarrow> pydict \<Rightarrow> json \<Rightarrow> (error + bool) \<times> state" where
  "hand_off cfg ev st input_data lot_id =
     (case (if connected (energygauge_com st) then (True, energygauge_com st)
            else connect ev (energygauge_com st)) of
        (False, com1) \<Rightarrow>
          (Inr False,
           st\<lparr>energygauge_com := com1,
              quality := set_system_health (quality st) RED
                           [Val lot_id, Lit '': Failed to connect to EnergyGauge'']\<rparr>)
      | (True, com1) \<Rightarrow>
     (case path_join ev (templates_dir ev) (JStr (template_file cfg)) of
        Inl e \<Rightarrow> (Inl e, st\<lparr>energygauge_com := com1\<rparr>)
      | Inr template_path \<Rightarrow>
     (case open_template ev com1 template_path of
        (False, com2) \<Rightarrow>
          (Inr False,
           st\<lparr>energygauge_com := com2,
              quality := set_system_health (quality st) RED
                           [Val lot_id, Lit '': Failed to open template'']\<rparr>)
      | (True, com2) \<Rightarrow>
     (let st1 = st\<lparr>energygauge_com := com2\<rparr>
      in case set_energygauge_data com2 input_data of
        Inl e \<Rightarrow> (Inl e, st1)
      | Inr data_set \<Rightarrow>
     (let st2 = (if \<not> data_set
                 then st1\<lparr>quality := set_system_health (quality st1) YELLOW
                                        [Val lot_id, Lit '': Some data could not be set'']\<rparr>
                 else st1);
          st3 = (if \<not> calculate com2
                 then st2\<lparr>quality := set_system_health (quality st2) YELLOW
                                        [Val lot_id, Lit '': Calculation may have failed'']\<rparr>
                 else st2)
      in case path_join ev (outputs_dir ev) lot_id of
        Inl e \<Rightarrow> (Inl e, st3)
      | Inr output_dir \<Rightarrow>
     (case mkdir ev output_dir of
        Inl e \<Rightarrow> (Inl e, st3)
      | Inr u \<Rightarrow>
     (case mark_as_processed ev (duplicate_detector st3) input_data of
        (Inl e, d) \<Rightarrow> (Inl e, st3\<lparr>duplicate_detector := d\<rparr>)
      | (Inr u, d) \<Rightarrow>
          (Inr True,
           st3\<lparr>duplicate_detector := d,
               quality := add_processed_lot (quality st3) lot_id ''SUCCESS''\<rparr>))))))))"

text \<open>The OCR step: it runs when the record names an image that exists.\<close>

definition ocr_step ::
  "config \<Rightarrow> float_env \<Rightarrow> env \<Rightarrow> state \<Rightarrow> pydict \<Rightarrow> json \<Rightarrow> json
     \<Rightarrow> (error + pydict) \<times> state" where
  "ocr_step cfg fe ev st input_data floor_plan_path lot_id =
     (case path_given_and_exists ev floor_plan_path of
        Inl e \<Rightarrow> (Inl e, st)
      | Inr False \<Rightarrow> (Inr input_data, st)
      | Inr True \<Rightarrow>
          (case fst (extract_text cfg ev floor_plan_path) of
             Inl e \<Rightarrow> (Inl e, st)
           | Inr ocr_result \<Rightarrow>
               if result_success ocr_result
               then (case enhance_data_with_ocr fe input_data (result_text ocr_result) of
                       (Inl e, input_data') \<Rightarrow> (Inl e, st)
                     | (Inr u, input_data') \<Rightarrow> (Inr input_data', st))
               else (Inr input_data,
                     st\<lparr>quality := set_data_quality (quality st) YELLOW
                                      [Val lot_id, Lit '': OCR failed or low confidence'']\<rparr>)))"

text \<open>The body of the \<^verbatim>\<open>try\<close> after the record is loaded.\<close>

definition lot_pipeline ::
  "config \<Rightarrow> float_env \<Rightarrow> env \<Rightarrow> state \<Rightarrow> pydict \<Rightarrow> json \<Rightarrow> (error + bool) \<times> state" where
  "lot_pipeline cfg fe ev st input_data lot_id =
     (case is_duplicate cfg ev (duplicate_detector st) input_data of
        (Inl e, d) \<Rightarrow> (Inl e, st\<lparr>duplicate_detector := d\<rparr>)
      | (Inr True, d) \<Rightarrow>
          (Inr True,
           st\<lparr>duplicate_detector := d,
              quality := set_data_quality (quality st) YELLOW
                           [Val lot_id, Lit '': Duplicate detected, skipping'']\<rparr>)
      | (Inr False, d) \<Rightarrow>
     (let st0 = st\<lparr>duplicate_detector := d\<rparr>
      in case validate_and_fill_defaults input_data of
        Inl e \<Rightarrow> (Inl e, st0)
      | Inr (input_data1, warnings) \<Rightarrow>
     (let st1 = (if warnings \<noteq> []
                 then st0\<lparr>quality := set_data_quality (quality st0) YELLOW
                                        [Val lot_id, Lit '': Using defaults for missing data'']\<rparr>
                 else st0);
          floor_plan_path = dict_get input_data1 ''floor_plan_image''
      in case ocr_step cfg fe ev st1 input_data1 floor_plan_path lot_id of
        (Inl e, st2) \<Rightarrow> (Inl e, st2)
      | (Inr input_data2, st2) \<Rightarrow> hand_off cfg ev st2 input_data2 lot_id)))"

text \<open>
  \<^verbatim>\<open>process_single_lot(input_file)\<close>: the \<^verbatim>\<open>try\<close> and its handler, which turns any
  exception into the result \<^verbatim>\<open>False\<close>, a red system health and a failed entry.
\<close>

definition process_single_lot ::
  "config \<Rightarrow> float_env \<Rightarrow> env \<Rightarrow> state \<Rightarrow> json \<Rightarrow> bool \<times> state" where
  "process_single_lot cfg fe ev st input_file =
     (case load_json ev input_file of
        None \<Rightarrow> (False, st)
      | Some input_data \<Rightarrow>
          if input_data = [] then (False, st)
          else
            (let lot_id = dict_get input_data ''lot_id'';
                 st1 = st\<lparr>quality := set_data_quality (set_current_lot (quality st) lot_id)
                                        GREEN [Lit ''Processing '', Val lot_id]\<rparr>
             in case lot_pipeline cfg fe ev st1 input_data lot_id of
                  (Inr b, st2) \<Rightarrow> (b, st2)
                | (Inl e, st2) \<Rightarrow>
                    (False,
                     st2\<lparr>quality :=
                           add_processed_lot
                             (set_system_health (quality st2) RED
                                [Lit ''Error processing '', Val lot_id, Lit '': '', Exc e])
                             lot_id ''FAILED''\<rparr>)))"

section \<open>EnergyGaugeAutomation: a batch\<close>

text \<open>\<^verbatim>\<open>s.endswith(t)\<close>.\<close>

definition endswith :: "string \<Rightarrow> string \<Rightarrow> bool" where
  "endswith s t = (length t \<le> length s \<and> drop (length s - length t) s = t)"

text \<open>
  \<^verbatim>\<open>get_input_files\<close>: the entries of the directory whose lower-cased name ends in
  \<^verbatim>\<open>.json\<close>, joined to the directory, in sorted order; the empty list when the listing
  fails.
\<close>

definition get_input_files :: "env \<Rightarrow> string \<Rightarrow> string list" where
  "get_input_files ev dir =
     (case os_listdir ev dir of
        Inl e \<Rightarrow> []
      | Inr names \<Rightarrow>
          sort (map (\<lambda>file. os_path_join ev dir file)
                    (filter (\<lambda>file. endswith (py_lower file) ''.json'') names)))"

text \<open>
  The loop of \<^verbatim>\<open>process_all_inputs\<close> with its two counters.  It stops when there is a
  window whose flag \<^verbatim>\<open>processing\<close> has been cleared.
\<close>

fun process_loop ::
  "config \<Rightarrow> float_env \<Rightarrow> env \<Rightarrow> string list \<Rightarrow> state \<Rightarrow> nat \<Rightarrow> nat \<Rightarrow> nat \<times> nat \<times> state" where
  "process_loop cfg fe ev [] st processed_count failed_count =
     (processed_count, failed_count, st)"
| "process_loop cfg fe ev (input_file # files) st processed_count failed_count =
     (if (case gui ev of None \<Rightarrow> False
          | Some processing \<Rightarrow> \<not> processing (processed_count + failed_count))
      then (processed_count, failed_count, st)
      else case process_single_lot cfg fe ev st (JStr input_file) of
             (True, st') \<Rightarrow> process_loop cfg fe ev files st' (processed_count + 1) failed_count
           | (False, st') \<Rightarrow> process_loop cfg fe ev files st' processed_count (failed_count + 1))"

definition process_all_inputs :: "config \<Rightarrow> float_env \<Rightarrow> env \<Rightarrow> state \<Rightarrow> state" where
  "process_all_inputs cfg fe ev st =
     (let input_files = get_input_files ev (inputs_dir ev)
      in if input_files = [] then st
         else case process_loop cfg fe ev input_files st 0 0 of
                (processed_count, failed_count, st') \<Rightarrow>
                  (let total_files = length input_files
                   in if failed_count = 0
                      then st'\<lparr>quality := set_system_health (quality st') GREEN
                                             [Lit ''All lots processed successfully'']\<rparr>
                      else if failed_count < total_files
                      then st'\<lparr>quality := set_system_health (quality st') YELLOW
                                             [Num failed_count, Lit '' lots failed processing'']\<rparr>
                      else st'\<lparr>quality := set_system_health (quality st') RED
                                             [Lit ''All lots failed processing'']\<rparr>))"

section \<open>EnergyGaugeAutomation: the parallel batch\<close>

text \<open>
  A call of the bound method \<^verbatim>\<open>self.process_single_lot\<close> with the given positional
  arguments.  The method is declared with the one parameter \<^verbatim>\<open>input_file\<close>; with any
  other number of arguments the call raises \<^verbatim>\<open>TypeError\<close> and the body does not run.
\<close>

definition call_process_single_lot ::
  "config \<Rightarrow> float_env \<Rightarrow> env \<Rightarrow> state \<Rightarrow> json list \<Rightarrow> (error + bool) \<times> state" where
  "call_process_single_lot cfg fe ev st args =
     (case args of
        [input_file] \<Rightarrow>
          (case process_single_lot cfg fe ev st input_file of (b, st') \<Rightarrow> (Inr b, st'))
      | _ \<Rightarrow> (Inl TypeError, st))"

text \<open>
  The lot identifier the parallel batch derives from a file name:
  \<^verbatim>\<open>lot_id.rsplit("_", 1)[0]\<close> when the stem ends in \<^verbatim>\<open>_inputs\<close> or \<^verbatim>\<open>_input\<close>.
\<close>

definition lot_id_of_file :: "env \<Rightarrow> string \<Rightarrow> string" where
  "lot_id_of_file ev input_file =
     (let lot_id = path_stem ev input_file
      in if endswith lot_id ''_inputs'' \<or> endswith lot_id ''_input''
         then rev (drop 1 (dropWhile (\<lambda>c. c \<noteq> CHR ''_'') (rev lot_id)))
         else lot_id)"

record lot_result =
  result_lot_id :: string
  result_input_file :: string
  result_status :: string
  result_error :: "error option"

text \<open>
  The unit of work of one file: \<^verbatim>\<open>executor.submit(self.process_single_lot, lot_id,
  input_data)\<close> and the entry that \<^verbatim>\<open>future.result\<close> gives.  A file that cannot be
  loaded gets a failed entry without a job.  (A job that outlives the time limit is not
  modelled.)
\<close>

definition parallel_lot ::
  "config \<Rightarrow> float_env \<Rightarrow> env \<Rightarrow> state \<Rightarrow> string \<Rightarrow> lot_result \<times> state" where
  "parallel_lot cfg fe ev st input_file =
     (let lot_id = lot_id_of_file ev input_file
      in case read_json ev (JStr input_file) of
           Inl e \<Rightarrow>
             (\<lparr>result_lot_id = lot_id, result_input_file = input_file,
               result_status = ''failed'', result_error = Some e\<rparr>, st)
         | Inr input_data \<Rightarrow>
             (case call_process_single_lot cfg fe ev st [JStr lot_id, input_data] of
                (Inr success, st') \<Rightarrow>
                  (\<lparr>result_lot_id = lot_id, result_input_file = input_file,
                    result_status = (if success then ''success'' else ''failed''),
                    result_error = None\<rparr>, st')
              | (Inl e, st') \<Rightarrow>
                  (\<lparr>result_lot_id = lot_id, result_input_file = input_file,
                    result_status = ''failed'', result_error = Some e\<rparr>, st')))"

text \<open>
  \<^verbatim>\<open>process_multiple_lots_parallel\<close>: the entries of the files that could not be loaded
  come first, then those of the jobs, in the order of submission.  The jobs are run here
  one after the other; the pool may interleave them.
\<close>

fun run_jobs ::
  "config \<Rightarrow> float_env \<Rightarrow> env \<Rightarrow> string list \<Rightarrow> state \<Rightarrow> lot_result list \<times> state" where
  "run_jobs cfg fe ev [] st = ([], st)"
| "run_jobs cfg fe ev (input_file # files) st =
     (case parallel_lot cfg fe ev st input_file of
        (r, st') \<Rightarrow> (case run_jobs cfg fe ev files st' of (rs, st'') \<Rightarrow> (r # rs, st'')))"

definition load_fails :: "env \<Rightarrow> string \<Rightarrow> bool" where
  "load_fails ev input_file = (case read_json ev (JStr input_file) of Inl e \<Rightarrow> True | Inr d \<Rightarrow> False)"

definition process_multiple_lots_parallel ::
  "config \<Rightarrow> float_env \<Rightarrow> env \<Rightarrow> state \<Rightarrow> (error + lot_result list) \<times> state" where
  "process_multiple_lots_parallel cfg fe ev st =
     (let input_files = glob_json ev (inputs_dir ev)
      in if input_files = [] then (Inr [], st)
         else case run_jobs cfg fe ev input_files st of
                (rs, st') \<Rightarrow>
                  (let results = map fst (filter (\<lambda>(r, f). load_fails ev f) (zip rs input_files))
                               @ map fst (filter (\<lambda>(r, f). \<not> load_fails ev f) (zip rs input_files))
                   in case write_report ev of
                        Inl e \<Rightarrow> (Inl e, st')
                      | Inr u \<Rightarrow> (Inr results, st')))"

section \<open>Sample inputs\<close>

text \<open>
  A lot without an image, an environment in which it goes through, and a start state.
  The confidences of the environment are multiples of a power of two, so that the sums
  and quotients the adapters take of them are doubles as they stand.
\<close>

definition no_float_env :: float_env where
  "no_float_env = \<lparr>float_parse = (\<lambda>s. 0), float_repr = (\<lambda>x. ''nan'')\<rparr>"

definition plan :: json where
  "plan = JStr ''floorplans/Lot101_plan.png''"

definition lot101 :: pydict where
  "lot101 =
     [(''lot_id'', JStr ''Lot101''),
      (''project_info'',
         JDict [(''name'', JStr ''Sample Project''), (''address'', JStr ''123 Main St''),
                (''city'', JStr ''Orlando''), (''state'', JStr ''FL''), (''zip'', JStr ''32801'')]),
      (''building_data'', JDict [(''conditioned_floor_area'', JFloat 2402)]),
      (''hvac'', JDict [(''system1'', JDict [(''tonnage'', JFloat 3), (''seer2'', JFloat 15)])]),
      (''duct'', JDict [(''location'', JStr ''Interior'')])]"

definition sample_env :: env where
  "sample_env =
     \<lparr>os_path_exists =
        (\<lambda>p. Inr (p = plan \<or> p = JStr ''templates/YourTemplate.egpj'')),
      os_remove = (\<lambda>p. Inr ()),
      tesseract_available = True,
      easyocr_available = True,
      easyocr_reader = True,
      opencv_available = False,
      cv2_imread = (\<lambda>p. Inr False),
      cv2_binarize = (\<lambda>p q. Inr ()),
      image_to_data = (\<lambda>p. Inr [Inr 75, Inr (- 1)]),
      image_to_string = (\<lambda>p. Inr ''Floor Area: 2,402 sq ft ''),
      readtext = (\<lambda>p. Inr [(''Floor Area: 2,402 sq ft'', 0.875)]),
      float_div = (\<lambda>a b. a / b),
      float_sum = sum_list,
      file_md5 = (\<lambda>p. Inr ''d41d8cd9''),
      md5_hexdigest = (\<lambda>s. s),
      json_dumps = (\<lambda>d. concat (map fst d)),
      write_hash_file = (\<lambda>h. Inr ()),
      read_json = (\<lambda>p. if p = JStr ''inputs/Lot101_inputs.json'' then Inr (JDict lot101)
                        else Inl OSError),
      com_dispatch = Inr True,
      path_join = (\<lambda>d p. case p of JStr s \<Rightarrow> Inr (d @ ''/'' @ s) | _ \<Rightarrow> Inl TypeError),
      mkdir = (\<lambda>p. Inr ()),
      inputs_dir = ''inputs'',
      outputs_dir = ''outputs'',
      templates_dir = ''templates'',
      os_listdir = (\<lambda>d. Inr [''Lot101_inputs.json'']),
      os_path_join = (\<lambda>d f. d @ ''/'' @ f),
      glob_json = (\<lambda>d. [''inputs/Lot101_inputs.json'']),
      path_stem = (\<lambda>p. ''Lot101_inputs''),
      write_report = Inr (),
      gui = None\<rparr>"

definition init_state :: state where
  "init_state =
     \<lparr>quality = init_quality,
      duplicate_detector = \<lparr>processed_hashes = {}, hash_file = None\<rparr>,
      energygauge_com = \<lparr>connected = False, project = False\<rparr>\<rparr>"

text \<open>
  What the enrichment may do to a container at one key: \<open>only_filled k c c'\<close> says
  that \<open>c'\<close> is \<open>c\<close>, except that the key \<open>k\<close> of a dictionary may have been
  given a value if it was missing or held a falsy one; every other entry, and a truthy
  value under \<open>k\<close>, is as it was.  \<open>systems_only_filled\<close> says the same of the HVAC
  section: the same systems in the same order, each changed at most at its
  \<^verbatim>\<open>tonnage\<close> in this way.
\<close>

definition only_filled :: "string \<Rightarrow> json \<Rightarrow> json \<Rightarrow> bool" where
  "only_filled k c c' =
     (case c of
        JDict d \<Rightarrow>
          (case c' of
             JDict d' \<Rightarrow>
               AList.delete k d' = AList.delete k d
               \<and> (case map_of d k of
                    None \<Rightarrow> True
                  | Some v \<Rightarrow> if truthy v then map_of d' k = Some v else True)
           | _ \<Rightarrow> False)
      | _ \<Rightarrow> c' = c)"

definition systems_only_filled :: "json \<Rightarrow> json \<Rightarrow> bool" where
  "systems_only_filled h h' =
     (case h of
        JDict hv \<Rightarrow>
          (case h' of
             JDict hv' \<Rightarrow>
               list_all2 (\<lambda>(system_id, system_data) (system_id', system_data').
                            system_id' = system_id
                            \<and> only_filled ''tonnage'' system_data system_data') hv hv'
           | _ \<Rightarrow> False)
      | _ \<Rightarrow> h' = h)"

text \<open>
  A lot with one HVAC system that has its tonnage and one that has none, and a text that
  names a floor area and a tonnage.
\<close>

definition lot102 :: pydict where
  "lot102 =
     [(''lot_id'', JStr ''Lot102''),
      (''building_data'',
         JDict [(''conditioned_floor_area'', JFloat 2402), (''windows'', JDict [])]),
      (''hvac'',
         JDict [(''system1'', JDict [(''tonnage'', JFloat 3), (''seer2'', JFloat 15)]),
                (''system2'', JDict [(''seer2'', JFloat 14)])]),
      (''duct'', JDict [(''location'', JStr ''Interior'')])]"

definition plan_text :: string where
  "plan_text = ''Floor Area: 1,000 sq ft, 2 ton''"

section \<open>Evaluation rules\<close>

lemmas char_eval = char_of_def bit_iff_odd

lemmas text_eval =
  py_lower_def py_lower_char_def py_isspace_def py_strip_def is_digit_def str_replace_def
  in_class_def lit_def spaces_def colon_space_def number_with_commas_def number_def

lemmas float_eval =
  py_float_def float_literal_def int_part_def frac_part_def digits_value_def
  py_str_float_def show_nat.simps

lemmas adapter_eval =
  extract_with_tesseract_def extract_with_easyocr_def try_except_def tesseract_try_def
  easyocr_try_def preprocess_image_def

section \<open>The field extractor\<close>

lemma try_patterns_None:
  "(\<forall>p\<in>set ps. \<forall>g. re_search p (py_lower text) = Some g \<longrightarrow>
       \<not> float_literal (str_replace CHR '','' [] g))
   \<Longrightarrow> try_patterns fe ps text = None"
  by (induction ps) (auto simp: py_float_def split: option.splits sum.splits)

text \<open>
  Claim C4.  On the text \<^verbatim>\<open>Floor Area: 2,402 sq ft\<close> and the field
  \<^verbatim>\<open>conditioned_floor_area\<close> the extractor returns \<^verbatim>\<open>2402.0\<close>: the first pattern
  matches, the commas are removed and the number is read as a float.  And whenever no
  pattern of the field finds a group that is a number once its commas are removed, the
  result is \<^verbatim>\<open>None\<close>.
\<close>

theorem field_extractor:
  "extract_field_from_text fe ''Floor Area: 2,402 sq ft'' ''conditioned_floor_area''
     = Some ''2402.0''
   \<and> ((\<forall>p\<in>set (field_patterns field_name). \<forall>g. re_search p (py_lower text) = Some g \<longrightarrow>
          \<not> float_literal (str_replace CHR '','' [] g))
        \<longrightarrow> extract_field_from_text fe text field_name = None)"
proof
  show "extract_field_from_text fe ''Floor Area: 2,402 sq ft'' ''conditioned_floor_area''
          = Some ''2402.0''"
    by (simp add: extract_field_from_text_def field_patterns_def patterns_def
          text_eval float_eval char_eval)
  show "(\<forall>p\<in>set (field_patterns field_name). \<forall>g. re_search p (py_lower text) = Some g \<longrightarrow>
          \<not> float_literal (str_replace CHR '','' [] g))
        \<longrightarrow> extract_field_from_text fe text field_name = None"
    by (simp add: extract_field_from_text_def try_patterns_None)
qed

theorem field_extractor_witness:
  "extract_field_from_text no_float_env ''Floor Area: 2,402 sq ft'' ''conditioned_floor_area''
     = Some ''2402.0''
   \<and> extract_field_from_text no_float_env ''Total area: ,, sq ft'' ''conditioned_floor_area''
     = None"
proof -
  have h: "\<forall>p\<in>set (field_patterns ''conditioned_floor_area''). \<forall>g.
       re_search p (py_lower ''Total area: ,, sq ft'') = Some g \<longrightarrow>
          \<not> float_literal (str_replace CHR '','' [] g)"
    by (simp add: field_patterns_def patterns_def text_eval float_eval char_eval)
  from field_extractor [of no_float_env "''conditioned_floor_area''" "''Total area: ,, sq ft''"] h
  show ?thesis by blast
qed

text \<open>
  Claim C10.  A field name whose lower-cased form is none of the five names of the table
  has no patterns, so the extractor returns \<^verbatim>\<open>None\<close> on every text.
\<close>

theorem unknown_field_none:
  "py_lower field_name
     \<notin> {''conditioned_floor_area'', ''tonnage'', ''seer'', ''u_factor'', ''shgc''}
   \<Longrightarrow> extract_field_from_text fe text field_name = None"
  by (simp add: extract_field_from_text_def field_patterns_def patterns_def)

theorem unknown_field_none_witness:
  "extract_field_from_text no_float_env ''SEER2: 14.5'' ''SEER2'' = None"
  using unknown_field_none [of "''SEER2''" no_float_env "''SEER2: 14.5''"]
  by (simp add: text_eval char_eval)

section \<open>The engine adapters\<close>

lemma tesseract_total: "\<exists>r. extract_with_tesseract ev image_path = Inr r"
  by (cases "tesseract_try ev image_path")
     (simp_all add: extract_with_tesseract_def try_except_def)

lemma easyocr_total: "\<exists>r. extract_with_easyocr ev image_path = Inr r"
  by (cases "easyocr_try ev image_path")
     (simp_all add: extract_with_easyocr_def try_except_def)

lemma tesseract_caught:
  "tesseract_try ev image_path = Inl e \<Longrightarrow> extract_with_tesseract ev image_path = Inr ('''', 0)"
  by (simp add: extract_with_tesseract_def try_except_def)

lemma easyocr_caught:
  "easyocr_try ev image_path = Inl e \<Longrightarrow> extract_with_easyocr ev image_path = Inr ('''', 0)"
  by (simp add: extract_with_easyocr_def try_except_def)

lemma tesseract_try_data:
  "image_to_data ev (preprocess_image ev image_path) = Inl e
   \<Longrightarrow> tesseract_try ev image_path = Inl e"
  by (simp add: tesseract_try_def Let_def)

lemma tesseract_try_string:
  assumes "image_to_string ev (preprocess_image ev image_path) = Inl e"
  shows "\<exists>e'. tesseract_try ev image_path = Inl e'"
proof (cases "image_to_data ev (preprocess_image ev image_path)")
  case (Inl a)
  then show ?thesis by (simp add: tesseract_try_def Let_def)
next
  case (Inr conf)
  show ?thesis
  proof (cases "positive_confs conf")
    case (Inl a)
    with Inr show ?thesis by (simp add: tesseract_try_def Let_def)
  next
    case c: (Inr confidences)
    with Inr assms show ?thesis by (simp add: tesseract_try_def Let_def)
  qed
qed

lemma easyocr_try_readtext:
  "readtext ev image_path = Inl e \<Longrightarrow> easyocr_try ev image_path = Inl e"
  by (simp add: easyocr_try_def)

text \<open>
  Claim C7.  Both adapters always return a pair and never an exception.  With the engine
  unavailable, and whenever a call inside the adapter's \<^verbatim>\<open>try\<close> raises (reading the
  image data or the text for Tesseract, \<^verbatim>\<open>readtext\<close> for EasyOCR), the pair is the
  empty text with confidence 0.  (A failure inside \<^verbatim>\<open>preprocess_image\<close> is caught there
  and the adapter goes on with the original image.)
\<close>

theorem adapters_never_raise:
  "(\<exists>r. extract_with_tesseract ev image_path = Inr r)
   \<and> (\<exists>r. extract_with_easyocr ev image_path = Inr r)
   \<and> (\<not> tesseract_available ev \<longrightarrow> extract_with_tesseract ev image_path = Inr ('''', 0))
   \<and> ((\<exists>e. tesseract_try ev image_path = Inl e)
        \<longrightarrow> extract_with_tesseract ev image_path = Inr ('''', 0))
   \<and> ((\<exists>e. image_to_data ev (preprocess_image ev image_path) = Inl e)
        \<longrightarrow> extract_with_tesseract ev image_path = Inr ('''', 0))
   \<and> ((\<exists>e. image_to_string ev (preprocess_image ev image_path) = Inl e)
        \<longrightarrow> extract_with_tesseract ev image_path = Inr ('''', 0))
   \<and> (\<not> easyocr_available ev \<or> \<not> easyocr_reader ev
        \<longrightarrow> extract_with_easyocr ev image_path = Inr ('''', 0))
   \<and> ((\<exists>e. easyocr_try ev image_path = Inl e)
        \<longrightarrow> extract_with_easyocr ev image_path = Inr ('''', 0))
   \<and> ((\<exists>e. readtext ev image_path = Inl e)
        \<longrightarrow> extract_with_easyocr ev image_path = Inr ('''', 0))"
proof (intro conjI impI)
  show "\<exists>r. extract_with_tesseract ev image_path = Inr r"
    by (rule tesseract_total)
  show "\<exists>r. extract_with_easyocr ev image_path = Inr r"
    by (rule easyocr_total)
  show "extract_with_tesseract ev image_path = Inr ('''', 0)" if "\<not> tesseract_available ev"
    using that by (simp add: extract_with_tesseract_def)
  show "extract_with_tesseract ev image_path = Inr ('''', 0)"
    if "\<exists>e. tesseract_try ev image_path = Inl e"
    using that tesseract_caught by blast
  show "extract_with_tesseract ev image_path = Inr ('''', 0)"
    if "\<exists>e. image_to_data ev (preprocess_image ev image_path) = Inl e"
    using that tesseract_try_data tesseract_caught by blast
  show "extract_with_tesseract ev image_path = Inr ('''', 0)"
    if "\<exists>e. image_to_string ev (preprocess_image ev image_path) = Inl e"
    using that tesseract_try_string tesseract_caught by blast
  show "extract_with_easyocr ev image_path = Inr ('''', 0)"
    if "\<not> easyocr_available ev \<or> \<not> easyocr_reader ev"
    using that by (simp add: extract_with_easyocr_def)
  show "extract_with_easyocr ev image_path = Inr ('''', 0)"
    if "\<exists>e. easyocr_try ev image_path = Inl e"
    using that easyocr_caught by blast
  show "extract_with_easyocr ev image_path = Inr ('''', 0)"
    if "\<exists>e. readtext ev image_path = Inl e"
    using that easyocr_try_readtext easyocr_caught by blast
qed

theorem adapters_never_raise_witness:
  "extract_with_tesseract (sample_env\<lparr>image_to_data := (\<lambda>p. Inl EngineError)\<rparr>) plan
     = Inr ('''', 0)
   \<and> extract_with_easyocr (sample_env\<lparr>readtext := (\<lambda>p. Inl EngineError)\<rparr>) plan
     = Inr ('''', 0)"
proof
  let ?e1 = "sample_env\<lparr>image_to_data := (\<lambda>p. Inl EngineError)\<rparr>"
  let ?e2 = "sample_env\<lparr>readtext := (\<lambda>p. Inl EngineError)\<rparr>"
  have a: "\<exists>e. image_to_data ?e1 (preprocess_image ?e1 plan) = Inl e"
    by simp
  have b: "\<exists>e. readtext ?e2 plan = Inl e"
    by simp
  show "extract_with_tesseract ?e1 plan = Inr ('''', 0)"
    by (rule adapters_never_raise [of ?e1 plan, THEN conjunct2, THEN conjunct2, THEN conjunct2,
          THEN conjunct2, THEN conjunct1, THEN mp, OF a])
  show "extract_with_easyocr ?e2 plan = Inr ('''', 0)"
    by (rule adapters_never_raise [of ?e2 plan, THEN conjunct2, THEN conjunct2, THEN conjunct2,
          THEN conjunct2, THEN conjunct2, THEN conjunct2, THEN conjunct2, THEN conjunct2,
          THEN mp, OF b])
qed

section \<open>The multi-engine extractor\<close>

lemma sample_exists: "os_path_exists sample_env plan = Inr True"
  by (simp add: sample_env_def)

lemma sample_tesseract:
  "extract_with_tesseract sample_env plan = Inr (''Floor Area: 2,402 sq ft'', 3 / 4)"
  by (simp add: adapter_eval sample_env_def plan_def py_strip_def py_isspace_def)

text \<open>
  Claim C2, as stated, fails: a Tesseract confidence at or above the threshold is not
  enough.  Here Tesseract reports confidence 0.75 over the threshold 0.6 but its text is
  empty after stripping; the extractor goes on to EasyOCR and returns its result.
\<close>

theorem extract_text_empty_text_falls_back:
  "os_path_exists (sample_env\<lparr>image_to_string := (\<lambda>p. Inr ''  '')\<rparr>) plan = Inr True
   \<and> extract_with_tesseract (sample_env\<lparr>image_to_string := (\<lambda>p. Inr ''  '')\<rparr>) plan
       = Inr ('''', 3 / 4)
   \<and> (3 / 4 :: real) \<ge> ocr_confidence_threshold default_config
   \<and> extract_text default_config (sample_env\<lparr>image_to_string := (\<lambda>p. Inr ''  '')\<rparr>) plan
       = (Inr \<lparr>result_text = ''Floor Area: 2,402 sq ft'', result_confidence = 7 / 8,
                result_method = ''easyocr'', result_success = True\<rparr>,
          [''tesseract'', ''easyocr''])"
  by (simp add: extract_text_def adapter_eval default_config_def sample_env_def plan_def
        py_strip_def py_isspace_def)

text \<open>
  Claim C2, amended.  When the image exists, Tesseract's confidence is at or above the
  threshold and its text is not empty, \<^verbatim>\<open>extract_text\<close> returns Tesseract's text and
  confidence with method \<^verbatim>\<open>tesseract\<close> and success true, whatever EasyOCR would give:
  Tesseract is the only adapter called.
\<close>

theorem extract_text_accepts_tesseract:
  assumes "os_path_exists ev image_path = Inr True"
      and "extract_with_tesseract ev image_path = Inr (a_text, a)"
      and "a \<ge> ocr_confidence_threshold cfg" and "a_text \<noteq> []"
  shows "extract_text cfg ev image_path =
           (Inr \<lparr>result_text = a_text, result_confidence = a, result_method = ''tesseract'',
                  result_success = True\<rparr>, [''tesseract''])"
  using assms by (simp add: extract_text_def)

theorem extract_text_accepts_tesseract_witness:
  "extract_text default_config sample_env plan =
     (Inr \<lparr>result_text = ''Floor Area: 2,402 sq ft'', result_confidence = 3 / 4,
            result_method = ''tesseract'', result_success = True\<rparr>, [''tesseract''])"
proof -
  have c: "(3 / 4 :: real) \<ge> ocr_confidence_threshold default_config"
    by (simp add: default_config_def)
  show ?thesis
    using extract_text_accepts_tesseract [OF sample_exists sample_tesseract c] by simp
qed

text \<open>
  Claim C3.  When the image exists and both confidences are below the threshold,
  \<^verbatim>\<open>extract_text\<close> returns the result of the engine with the higher confidence,
  Tesseract's when the two are equal, and success is false either way.
\<close>

theorem extract_text_both_below:
  assumes "os_path_exists ev image_path = Inr True"
      and "extract_with_tesseract ev image_path = Inr (a_text, a)"
      and "extract_with_easyocr ev image_path = Inr (b_text, b)"
      and "a < ocr_confidence_threshold cfg" and "b < ocr_confidence_threshold cfg"
  shows "fst (extract_text cfg ev image_path) =
           Inr (if a \<ge> b
                then \<lparr>result_text = a_text, result_confidence = a,
                       result_method = ''tesseract'', result_success = False\<rparr>
                else \<lparr>result_text = b_text, result_confidence = b,
                       result_method = ''easyocr'', result_success = False\<rparr>)"
  using assms by (simp add: extract_text_def)

theorem extract_text_both_below_witness:
  "fst (extract_text default_config
          (sample_env\<lparr>image_to_data := (\<lambda>p. Inr [Inr 25]),
                      readtext := (\<lambda>p. Inr [(''Floor'', 0.5)])\<rparr>) plan) =
     Inr \<lparr>result_text = ''Floor'', result_confidence = 1 / 2,
           result_method = ''easyocr'', result_success = False\<rparr>
   \<and> fst (extract_text default_config
          (sample_env\<lparr>image_to_data := (\<lambda>p. Inr [Inr 50]),
                      readtext := (\<lambda>p. Inr [(''Floor'', 0.5)])\<rparr>) plan) =
     Inr \<lparr>result_text = ''Floor Area: 2,402 sq ft'', result_confidence = 1 / 2,
           result_method = ''tesseract'', result_success = False\<rparr>"
proof -
  let ?e1 = "sample_env\<lparr>image_to_data := (\<lambda>p. Inr [Inr 25]),
                        readtext := (\<lambda>p. Inr [(''Floor'', 0.5)])\<rparr>"
  let ?e2 = "sample_env\<lparr>image_to_data := (\<lambda>p. Inr [Inr 50]),
                        readtext := (\<lambda>p. Inr [(''Floor'', 0.5)])\<rparr>"
  have x1: "os_path_exists ?e1 plan = Inr True" and x2: "os_path_exists ?e2 plan = Inr True"
    by (simp_all add: sample_env_def)
  have a1: "extract_with_tesseract ?e1 plan = Inr (''Floor Area: 2,402 sq ft'', 1 / 4)"
    by (simp add: adapter_eval sample_env_def plan_def py_strip_def py_isspace_def)
  have a2: "extract_with_tesseract ?e2 plan = Inr (''Floor Area: 2,402 sq ft'', 1 / 2)"
    by (simp add: adapter_eval sample_env_def plan_def py_strip_def py_isspace_def)
  have b1: "extract_with_easyocr ?e1 plan = Inr (''Floor'', 1 / 2)"
    by (simp add: adapter_eval sample_env_def plan_def py_strip_def py_isspace_def)
  have b2: "extract_with_easyocr ?e2 plan = Inr (''Floor'', 1 / 2)"
    by (simp add: adapter_eval sample_env_def plan_def py_strip_def py_isspace_def)
  have t: "(1 / 4 :: real) < ocr_confidence_threshold default_config"
          "(1 / 2 :: real) < ocr_confidence_threshold default_config"
    by (simp_all add: default_config_def)
  show ?thesis
    using extract_text_both_below [OF x1 a1 b1 t(1) t(2)]
          extract_text_both_below [OF x2 a2 b2 t(2) t(2)]
    by simp
qed

section \<open>The duplicate detector\<close>

lemma path_same:
  "dict_get (AList.update ''lot_id'' v r) ''floor_plan_image'' = dict_get r ''floor_plan_image''"
  by (simp add: dict_get_def update_conv')

lemma content_hash_lot_id:
  "content_hash ev (AList.update ''lot_id'' v r) = content_hash ev r"
  by (simp add: content_hash_def delete_update_same)

lemma content_hash_marked:
  "mark_as_processed ev d r = (Inr (), d') \<Longrightarrow> content_hash ev r \<in> processed_hashes d'"
  by (auto simp: mark_as_processed_def save_processed_hashes_def Let_def
           split: sum.splits if_splits)

lemma mark_path_ok:
  "mark_as_processed ev d r = (Inr (), d') \<Longrightarrow>
     \<exists>ex. path_given_and_exists ev (dict_get r ''floor_plan_image'') = Inr ex"
  by (auto simp: mark_as_processed_def Let_def split: sum.splits)

text \<open>
  Claim C1.  With duplicate detection enabled, once \<^verbatim>\<open>mark_as_processed(r)\<close> has
  returned, \<^verbatim>\<open>is_duplicate\<close> is true for \<open>r\<close> and for \<open>r\<close> with any other value under
  \<^verbatim>\<open>lot_id\<close>: the content digest leaves the identifier and the image path out.
\<close>

theorem mark_then_is_duplicate:
  assumes "duplicate_detection_enabled cfg"
      and "mark_as_processed ev d r = (Inr (), d')"
  shows "fst (is_duplicate cfg ev d' r) = Inr True
         \<and> fst (is_duplicate cfg ev d' (AList.update ''lot_id'' v r)) = Inr True"
proof -
  from assms(2) obtain ex
    where ex: "path_given_and_exists ev (dict_get r ''floor_plan_image'') = Inr ex"
    using mark_path_ok by blast
  have h: "content_hash ev r \<in> processed_hashes d'"
    using assms(2) by (rule content_hash_marked)
  show ?thesis
    using assms(1) ex h
    by (simp add: is_duplicate_def path_same content_hash_lot_id)
qed

lemma sample_mark:
  "mark_as_processed sample_env \<lparr>processed_hashes = {}, hash_file = None\<rparr> lot101 =
     (Inr (), snd (mark_as_processed sample_env \<lparr>processed_hashes = {}, hash_file = None\<rparr> lot101))"
  by (simp add: mark_as_processed_def path_given_and_exists_def dict_get_def lot101_def)

theorem mark_then_is_duplicate_witness:
  "fst (is_duplicate default_config sample_env
          (snd (mark_as_processed sample_env \<lparr>processed_hashes = {}, hash_file = None\<rparr> lot101))
          (AList.update ''lot_id'' (JStr ''Lot999'') lot101)) = Inr True"
proof -
  have en: "duplicate_detection_enabled default_config"
    by (simp add: default_config_def)
  show ?thesis
    using mark_then_is_duplicate [OF en sample_mark] by simp
qed

text \<open>
  Claim C8.  No method of the detector removes a digest: \<^verbatim>\<open>is_duplicate\<close> leaves the
  detector as it is, \<^verbatim>\<open>mark_as_processed\<close> leaves a superset of the set it found,
  whether it returns or raises, and \<^verbatim>\<open>save_processed_hashes\<close> leaves the set as it is.
\<close>

theorem hashes_append_only:
  "snd (is_duplicate cfg ev d input_data) = d
   \<and> processed_hashes d \<subseteq> processed_hashes (snd (mark_as_processed ev d input_data))
   \<and> processed_hashes (save_processed_hashes ev d) = processed_hashes d"
  by (auto simp: is_duplicate_def mark_as_processed_def save_processed_hashes_def Let_def
           split: sum.splits if_splits)

theorem hashes_append_only_witness:
  "''0f343b09'' \<in> processed_hashes
      (snd (mark_as_processed sample_env
              \<lparr>processed_hashes = {''0f343b09''}, hash_file = None\<rparr> lot101))"
  using hashes_append_only [of default_config sample_env
          "\<lparr>processed_hashes = {''0f343b09''}, hash_file = None\<rparr>" lot101]
  by auto

section \<open>Enrichment from the OCR text\<close>

lemma only_filled_refl: "only_filled k c c"
  by (cases c) (simp_all add: only_filled_def split: option.splits)

lemma systems_rel_refl:
  "list_all2 (\<lambda>(system_id, system_data) (system_id', system_data').
                system_id' = system_id \<and> only_filled ''tonnage'' system_data system_data')
     hv hv"
  by (induction hv) (auto simp: only_filled_refl)

lemma systems_only_filled_refl: "systems_only_filled h h"
  by (cases h) (simp_all add: systems_only_filled_def systems_rel_refl)

lemma missing_or_falsy_dict:
  "missing_or_falsy (JDict d) k = Inr True \<Longrightarrow> map_of d k = Some v \<Longrightarrow> \<not> truthy v"
  by (simp add: missing_or_falsy_def)

lemma fill_from_ocr_cases:
  assumes "fill_from_ocr fe c k t = Inr c'"
  shows "c' = c \<or> (\<exists>d x. c = JDict d \<and> missing_or_falsy c k = Inr True
                      \<and> c' = JDict (AList.update k x d))"
proof (cases "missing_or_falsy c k")
  case (Inl e)
  with assms show ?thesis by (simp add: fill_from_ocr_def)
next
  case (Inr m)
  show ?thesis
  proof (cases m)
    case False
    with Inr assms show ?thesis by (simp add: fill_from_ocr_def)
  next
    case True
    show ?thesis
    proof (cases "extract_field_from_text fe t k")
      case None
      with Inr True assms show ?thesis by (simp add: fill_from_ocr_def)
    next
      case (Some v)
      show ?thesis
      proof (cases "v = []")
        case e: True
        with Some Inr True assms show ?thesis by (simp add: fill_from_ocr_def)
      next
        case ne: False
        with Some Inr True assms
        have s: "py_setitem c k (JFloat (float_of_repr fe v)) = Inr c'"
          by (simp add: fill_from_ocr_def)
        then obtain d where "c = JDict d" by (cases c) simp_all
        with s Inr True show ?thesis by auto
      qed
    qed
  qed
qed

lemma fill_from_ocr_only_filled:
  assumes "fill_from_ocr fe c k t = Inr c'"
  shows "only_filled k c c'"
proof -
  from fill_from_ocr_cases [OF assms]
  consider "c' = c"
    | d x where "c = JDict d" "missing_or_falsy c k = Inr True" "c' = JDict (AList.update k x d)"
    by blast
  then show ?thesis
  proof cases
    case 1
    then show ?thesis by (simp add: only_filled_refl)
  next
    case 2
    then show ?thesis
      using missing_or_falsy_dict [of d k]
      by (auto simp: only_filled_def delete_update_same split: option.splits)
  qed
qed

lemma enhance_hvac_only_filled:
  "enhance_hvac fe t hv = (r, hv') \<Longrightarrow>
     list_all2 (\<lambda>(system_id, system_data) (system_id', system_data').
                  system_id' = system_id \<and> only_filled ''tonnage'' system_data system_data')
       hv hv'"
proof (induction hv arbitrary: r hv')
  case Nil
  then show ?case by simp
next
  case (Cons a hv)
  obtain k s where a: "a = (k, s)" by (cases a)
  show ?case
  proof (cases "fill_from_ocr fe s ''tonnage'' t")
    case (Inl e)
    with Cons.prems a have "hv' = a # hv" by simp
    then show ?thesis
      using systems_rel_refl [of "a # hv"] by simp
  next
    case (Inr s')
    obtain r2 rest' where e: "enhance_hvac fe t hv = (r2, rest')"
      by (cases "enhance_hvac fe t hv")
    with Cons.prems a Inr have h: "hv' = (k, s') # rest'" by simp
    from Cons.IH [OF e] fill_from_ocr_only_filled [OF Inr] a h show ?thesis by simp
  qed
qed

text \<open>
  Claim C6.  \<^verbatim>\<open>enhance_data_with_ocr\<close> never overwrites an explicit value.  Whatever
  the text says, and whether the call returns or raises, the record it leaves differs
  from the one it was given in two places at most: the \<^verbatim>\<open>conditioned_floor_area\<close> of
  \<^verbatim>\<open>building_data\<close> and the \<^verbatim>\<open>tonnage\<close> of an HVAC system, and each of them only if it was
  missing or falsy before.  Every other entry of the record, of \<^verbatim>\<open>building_data\<close> and of
  each system, and every such field that held a truthy value, is as it was.
\<close>

theorem enhance_never_overwrites:
  assumes "enhance_data_with_ocr fe input_data ocr_text = (r, input_data')"
  shows "AList.delete ''hvac'' (AList.delete ''building_data'' input_data')
           = AList.delete ''hvac'' (AList.delete ''building_data'' input_data)
       \<and> rel_option (only_filled ''conditioned_floor_area'')
           (map_of input_data ''building_data'') (map_of input_data' ''building_data'')
       \<and> rel_option systems_only_filled
           (map_of input_data ''hvac'') (map_of input_data' ''hvac'')"
proof -
  define b where
    "b = (case map_of input_data ''building_data'' of None \<Rightarrow> JDict [] | Some x \<Rightarrow> x)"
  show ?thesis
  proof (cases "fill_from_ocr fe b ''conditioned_floor_area'' ocr_text")
    case (Inl e)
    with assms have "input_data' = input_data"
      by (simp add: enhance_data_with_ocr_def b_def)
    then show ?thesis
      by (simp add: option.rel_refl only_filled_refl systems_only_filled_refl)
  next
    case (Inr b')
    define d1 where
      "d1 = (if map_of input_data ''building_data'' = None then input_data
             else AList.update ''building_data'' b' input_data)"
    have del1: "AList.delete ''building_data'' d1 = AList.delete ''building_data'' input_data"
      by (simp add: d1_def delete_update_same)
    have bd1: "rel_option (only_filled ''conditioned_floor_area'')
                 (map_of input_data ''building_data'') (map_of d1 ''building_data'')"
      using fill_from_ocr_only_filled [OF Inr]
      by (cases "map_of input_data ''building_data''") (simp_all add: d1_def b_def update_conv')
    have hv1: "map_of d1 ''hvac'' = map_of input_data ''hvac''"
      by (simp add: d1_def update_conv')
    have rest: "input_data' = d1 \<or>
      (\<exists>hv hv' r'. map_of d1 ''hvac'' = Some (JDict hv) \<and> enhance_hvac fe ocr_text hv = (r', hv')
          \<and> input_data' = AList.update ''hvac'' (JDict hv') d1)"
      using assms Inr
      by (auto simp: enhance_data_with_ocr_def b_def d1_def Let_def
               split: option.splits json.splits prod.splits)
    from rest show ?thesis
    proof
      assume "input_data' = d1"
      with del1 bd1 hv1 show ?thesis
        by (simp add: option.rel_refl systems_only_filled_refl)
    next
      assume "\<exists>hv hv' r'. map_of d1 ''hvac'' = Some (JDict hv)
                \<and> enhance_hvac fe ocr_text hv = (r', hv')
                \<and> input_data' = AList.update ''hvac'' (JDict hv') d1"
      then obtain hv hv' r' where h: "map_of d1 ''hvac'' = Some (JDict hv)"
        and e: "enhance_hvac fe ocr_text hv = (r', hv')"
        and d': "input_data' = AList.update ''hvac'' (JDict hv') d1"
        by blast
      have 1: "AList.delete ''hvac'' (AList.delete ''building_data'' input_data')
                 = AList.delete ''hvac'' (AList.delete ''building_data'' input_data)"
      proof -
        have "AList.delete ''hvac'' (AList.delete ''building_data'' input_data')
                = AList.delete ''building_data'' (AList.delete ''hvac'' input_data')"
          by (rule delete_twist)
        also have "\<dots> = AList.delete ''building_data'' (AList.delete ''hvac'' d1)"
          by (simp add: d' delete_update_same)
        also have "\<dots> = AList.delete ''hvac'' (AList.delete ''building_data'' d1)"
          by (rule delete_twist)
        finally show ?thesis by (simp add: del1)
      qed
      have 2: "rel_option (only_filled ''conditioned_floor_area'')
                 (map_of input_data ''building_data'') (map_of input_data' ''building_data'')"
        using bd1 by (simp add: d' update_conv')
      have 3: "rel_option systems_only_filled
                 (map_of input_data ''hvac'') (map_of input_data' ''hvac'')"
        using enhance_hvac_only_filled [OF e] h hv1
        by (simp add: d' update_conv' systems_only_filled_def)
      from 1 2 3 show ?thesis by blast
    qed
  qed
qed

lemma lot102_enhanced:
  "enhance_data_with_ocr no_float_env lot102 plan_text =
     (Inr (),
      [(''lot_id'', JStr ''Lot102''),
       (''building_data'',
          JDict [(''conditioned_floor_area'', JFloat 2402), (''windows'', JDict [])]),
       (''hvac'',
          JDict [(''system1'', JDict [(''tonnage'', JFloat 3), (''seer2'', JFloat 15)]),
                 (''system2'', JDict [(''seer2'', JFloat 14), (''tonnage'', JFloat 2)])]),
       (''duct'', JDict [(''location'', JStr ''Interior'')])])"
  by (simp add: enhance_data_with_ocr_def lot102_def plan_text_def fill_from_ocr_def
        missing_or_falsy_def float_of_repr_def extract_field_from_text_def field_patterns_def
        patterns_def text_eval float_eval char_eval)

theorem enhance_never_overwrites_witness:
  "AList.delete ''hvac'' (AList.delete ''building_data''
       (snd (enhance_data_with_ocr no_float_env lot102 plan_text)))
     = AList.delete ''hvac'' (AList.delete ''building_data'' lot102)
   \<and> rel_option (only_filled ''conditioned_floor_area'')
       (map_of lot102 ''building_data'')
       (map_of (snd (enhance_data_with_ocr no_float_env lot102 plan_text)) ''building_data'')
   \<and> rel_option systems_only_filled
       (map_of lot102 ''hvac'')
       (map_of (snd (enhance_data_with_ocr no_float_env lot102 plan_text)) ''hvac'')
   \<and> map_of (snd (enhance_data_with_ocr no_float_env lot102 plan_text)) ''hvac''
       = Some (JDict [(''system1'', JDict [(''tonnage'', JFloat 3), (''seer2'', JFloat 15)]),
                      (''system2'', JDict [(''seer2'', JFloat 14), (''tonnage'', JFloat 2)])])"
proof -
  have e: "enhance_data_with_ocr no_float_env lot102 plan_text =
             (fst (enhance_data_with_ocr no_float_env lot102 plan_text),
              snd (enhance_data_with_ocr no_float_env lot102 plan_text))"
    by simp
  have v: "map_of (snd (enhance_data_with_ocr no_float_env lot102 plan_text)) ''hvac''
       = Some (JDict [(''system1'', JDict [(''tonnage'', JFloat 3), (''seer2'', JFloat 15)]),
                      (''system2'', JDict [(''seer2'', JFloat 14), (''tonnage'', JFloat 2)])])"
    by (simp add: lot102_enhanced)
  from enhance_never_overwrites [OF e] v show ?thesis by (intro conjI) (elim conjE, assumption)+
qed

section \<open>The batch\<close>

lemma process_loop_counts:
  "process_loop cfg fe ev files st p f = (p', f', st') \<Longrightarrow> gui ev = None
   \<Longrightarrow> p' + f' = p + f + length files"
proof (induction files arbitrary: st p f)
  case Nil
  then show ?case by simp
next
  case (Cons a files)
  obtain b st1 where s: "process_single_lot cfg fe ev st (JStr a) = (b, st1)"
    by (cases "process_single_lot cfg fe ev st (JStr a)")
  show ?case
  proof (cases b)
    case True
    with Cons.prems s have "process_loop cfg fe ev files st1 (p + 1) f = (p', f', st')" by simp
    from Cons.IH [OF this Cons.prems(2)] show ?thesis by simp
  next
    case False
    with Cons.prems s have "process_loop cfg fe ev files st1 p (f + 1) = (p', f', st')" by simp
    from Cons.IH [OF this Cons.prems(2)] show ?thesis by simp
  qed
qed

text \<open>
  Claim C5.  When the batch has at least one input file and its loop ends with
  \<open>failed_count\<close> failures, \<^verbatim>\<open>process_all_inputs\<close> leaves the system health GREEN if
  there was none, YELLOW if there were fewer than there are files, and RED otherwise.
  Without a window nothing stops the loop, so every file is counted once, as a success or
  as a failure.
\<close>

theorem batch_health:
  assumes "get_input_files ev (inputs_dir ev) \<noteq> []"
      and "process_loop cfg fe ev (get_input_files ev (inputs_dir ev)) st 0 0
             = (processed_count, failed_count, st')"
  shows "system_health (quality (process_all_inputs cfg fe ev st)) =
           (if failed_count = 0 then GREEN
            else if failed_count < length (get_input_files ev (inputs_dir ev)) then YELLOW
            else RED)
         \<and> (gui ev = None \<longrightarrow>
              processed_count + failed_count = length (get_input_files ev (inputs_dir ev)))"
proof
  show "system_health (quality (process_all_inputs cfg fe ev st)) =
           (if failed_count = 0 then GREEN
            else if failed_count < length (get_input_files ev (inputs_dir ev)) then YELLOW
            else RED)"
    using assms by (simp add: process_all_inputs_def Let_def set_system_health_def)
  show "gui ev = None \<longrightarrow>
          processed_count + failed_count = length (get_input_files ev (inputs_dir ev))"
    using process_loop_counts [OF assms(2)] by simp
qed

lemma sample_files:
  "get_input_files sample_env (inputs_dir sample_env) = [''inputs/Lot101_inputs.json'']"
  by (simp add: get_input_files_def sample_env_def endswith_def py_lower_def py_lower_char_def
        char_eval)

lemma sample_load: "load_json sample_env (JStr ''inputs/Lot101_inputs.json'') = Some lot101"
  by (simp add: load_json_def sample_env_def lot101_def)

lemma sample_not_dup:
  "is_duplicate default_config sample_env \<lparr>processed_hashes = {}, hash_file = None\<rparr> lot101
     = (Inr False, \<lparr>processed_hashes = {}, hash_file = None\<rparr>)"
  by (simp add: is_duplicate_def default_config_def path_given_and_exists_def dict_get_def
        lot101_def)

lemma sample_validate: "validate_and_fill_defaults lot101 = Inr (lot101, [])"
  by (simp add: validate_and_fill_defaults_def defaults_def lot101_def dict_get_def)

lemma sample_set_data:
  "set_energygauge_data \<lparr>connected = True, project = True\<rparr> lot101 = Inr True"
  by (simp add: set_energygauge_data_def lot101_def set_project_info_def set_building_data_def
        set_windows_def set_hvac_system_def has_items_def)

lemma sample_lot:
  "fst (process_single_lot default_config no_float_env sample_env init_state
          (JStr ''inputs/Lot101_inputs.json'')) = True"
  apply (simp add: process_single_lot_def sample_load)
  apply (simp add: lot_pipeline_def init_state_def sample_not_dup sample_validate Let_def)
  apply (simp add: ocr_step_def dict_get_def path_given_and_exists_def hand_off_def connect_def
      open_template_def sample_set_data calculate_def mark_as_processed_def)
  apply (simp add: lot101_def sample_env_def default_config_def open_template_def
      sample_set_data [unfolded lot101_def] calculate_def mark_as_processed_def
      path_given_and_exists_def dict_get_def)
  done

lemma sample_failing_lot:
  "fst (process_single_lot default_config no_float_env
          (sample_env\<lparr>com_dispatch := Inl OSError\<rparr>) init_state
          (JStr ''inputs/Lot101_inputs.json'')) = False"
  apply (simp add: process_single_lot_def load_json_def sample_env_def)
  apply (simp add: lot_pipeline_def init_state_def is_duplicate_def default_config_def
      path_given_and_exists_def dict_get_def sample_validate Let_def lot101_def)
  apply (simp add: sample_validate [unfolded lot101_def] ocr_step_def dict_get_def
      path_given_and_exists_def hand_off_def connect_def)
  done

theorem batch_health_witness:
  "system_health (quality (process_all_inputs default_config no_float_env sample_env init_state))
     = GREEN
   \<and> system_health (quality (process_all_inputs default_config no_float_env
        (sample_env\<lparr>com_dispatch := Inl OSError\<rparr>) init_state))
     = RED"
proof
  let ?f = "JStr ''inputs/Lot101_inputs.json''"
  let ?bad = "sample_env\<lparr>com_dispatch := Inl OSError\<rparr>"
  obtain st1 where p1:
    "process_single_lot default_config no_float_env sample_env init_state ?f = (True, st1)"
    using sample_lot
    by (cases "process_single_lot default_config no_float_env sample_env init_state ?f") simp
  obtain st2 where p2:
    "process_single_lot default_config no_float_env ?bad init_state ?f = (False, st2)"
    using sample_failing_lot
    by (cases "process_single_lot default_config no_float_env ?bad init_state ?f") simp
  have g: "gui sample_env = None" "gui ?bad = None"
    by (simp_all add: sample_env_def)
  have files: "get_input_files ?bad (inputs_dir ?bad) = [''inputs/Lot101_inputs.json'']"
    by (simp add: get_input_files_def sample_env_def endswith_def py_lower_def py_lower_char_def
          char_eval)
  have ne: "get_input_files sample_env (inputs_dir sample_env) \<noteq> []"
    by (simp add: sample_files)
  have ne': "get_input_files ?bad (inputs_dir ?bad) \<noteq> []"
    by (simp only: files) simp
  have l: "process_loop default_config no_float_env sample_env
             (get_input_files sample_env (inputs_dir sample_env)) init_state 0 0 = (1, 0, st1)"
    by (simp only: sample_files process_loop.simps g p1) simp
  have l': "process_loop default_config no_float_env ?bad
             (get_input_files ?bad (inputs_dir ?bad)) init_state 0 0 = (0, 1, st2)"
    by (simp only: files process_loop.simps g p2) simp
  show "system_health (quality (process_all_inputs default_config no_float_env sample_env
          init_state)) = GREEN"
    using batch_health [OF ne l] by simp
  show "system_health (quality (process_all_inputs default_config no_float_env ?bad
          init_state)) = RED"
    using batch_health [OF ne' l', THEN conjunct1] by (simp only: files) simp
qed

section \<open>The parallel batch\<close>

lemma parallel_job_never_runs:
  "read_json ev (JStr input_file) = Inr input_data \<Longrightarrow>
   parallel_lot cfg fe ev st input_file =
     (\<lparr>result_lot_id = lot_id_of_file ev input_file, result_input_file = input_file,
       result_status = ''failed'', result_error = Some TypeError\<rparr>, st)"
  by (simp add: parallel_lot_def call_process_single_lot_def Let_def)

text \<open>
  Claim C9 does not hold of the code.  The job that the parallel batch submits calls
  \<^verbatim>\<open>process_single_lot\<close> with two arguments, the lot identifier and the loaded record,
  where the method takes the path of the input file: the call raises \<^verbatim>\<open>TypeError\<close>
  before any step of the pipeline runs.  The lot that the sequential batch processes with
  success gets the status \<^verbatim>\<open>failed\<close> from the parallel one, and the state is untouched.
\<close>

theorem parallel_lot_fails_where_sequential_succeeds:
  "fst (process_single_lot default_config no_float_env sample_env init_state
          (JStr ''inputs/Lot101_inputs.json'')) = True
   \<and> parallel_lot default_config no_float_env sample_env init_state
        ''inputs/Lot101_inputs.json'' =
       (\<lparr>result_lot_id = ''Lot101'', result_input_file = ''inputs/Lot101_inputs.json'',
         result_status = ''failed'', result_error = Some TypeError\<rparr>, init_state)"
proof
  show "fst (process_single_lot default_config no_float_env sample_env init_state
          (JStr ''inputs/Lot101_inputs.json'')) = True"
    by (rule sample_lot)
  have r: "read_json sample_env (JStr ''inputs/Lot101_inputs.json'') = Inr (JDict lot101)"
    by (simp add: sample_env_def)
  have i: "lot_id_of_file sample_env ''inputs/Lot101_inputs.json'' = ''Lot101''"
    by (simp add: lot_id_of_file_def sample_env_def endswith_def)
  show "parallel_lot default_config no_float_env sample_env init_state
        ''inputs/Lot101_inputs.json'' =
       (\<lparr>result_lot_id = ''Lot101'', result_input_file = ''inputs/Lot101_inputs.json'',
         result_status = ''failed'', result_error = Some TypeError\<rparr>, init_state)"
    using parallel_job_never_runs [OF r] i by simp
qed

end
